theory Spec2Isabelle
  imports Main "HOL-Library.Sublist"
begin

section \<open>Python string primitives used by the ADB manager\<close>

text \<open>
  Python text is modelled as \<^typ>\<open>string\<close>; a \<^typ>\<open>char\<close> stands for the code point of the same
  number, so the model covers text over the code points 0 to 255. \<open>sub in s\<close> is
  \<^term>\<open>sublist sub s\<close> and \<open>s.startswith(p)\<close> is \<^term>\<open>prefix p s\<close>.
\<close>

definition code_point :: "char \<Rightarrow> nat" where
  "code_point c = of_char c"

text \<open>\<open>str.lower()\<close>: A to Z and the capital letters 0xC0 to 0xDE (0xD7 is the multiplication sign).\<close>

definition lower_char :: "char \<Rightarrow> char" where
  "lower_char c =
     (let n = code_point c
      in if (65 \<le> n \<and> n \<le> 90) \<or> (192 \<le> n \<and> n \<le> 222 \<and> n \<noteq> 215)
         then char_of (n + 32) else c)"

definition lower :: "string \<Rightarrow> string" where
  "lower s = map lower_char s"

text \<open>The characters \<open>str.strip()\<close> and \<open>str.split()\<close> treat as whitespace.\<close>

definition is_space :: "char \<Rightarrow> bool" where
  "is_space c =
     (let n = code_point c
      in (9 \<le> n \<and> n \<le> 13) \<or> (28 \<le> n \<and> n \<le> 32) \<or> n = 133 \<or> n = 160)"

definition lstrip_chars :: "(char \<Rightarrow> bool) \<Rightarrow> string \<Rightarrow> string" where
  "lstrip_chars P s = dropWhile P s"

definition rstrip_chars :: "(char \<Rightarrow> bool) \<Rightarrow> string \<Rightarrow> string" where
  "rstrip_chars P s = rev (dropWhile P (rev s))"

definition strip_chars :: "(char \<Rightarrow> bool) \<Rightarrow> string \<Rightarrow> string" where
  "strip_chars P s = rstrip_chars P (lstrip_chars P s)"

text \<open>\<open>s.strip()\<close>\<close>

definition strip :: "string \<Rightarrow> string" where
  "strip s = strip_chars is_space s"

text \<open>\<open>s.strip("'\"\r")\<close>: single quote, double quote, carriage return.\<close>

definition is_quote_or_cr :: "char \<Rightarrow> bool" where
  "is_quote_or_cr c = (code_point c = 39 \<or> code_point c = 34 \<or> code_point c = 13)"

definition strip_quotes :: "string \<Rightarrow> string" where
  "strip_quotes s = strip_chars is_quote_or_cr s"

text \<open>\<open>s.split(sep)\<close> for a one-character separator: always at least one field.\<close>

fun split_on :: "char \<Rightarrow> string \<Rightarrow> string list" where
  "split_on sep [] = [[]]"
| "split_on sep (c # cs) =
     (if c = sep then [] # split_on sep cs
      else (case split_on sep cs of
              [] \<Rightarrow> [[c]]
            | f # fs \<Rightarrow> (c # f) # fs))"

text \<open>\<open>s.split(sep, 1)\<close> for a one-character separator: cut at the first separator only.\<close>

definition split_once :: "char \<Rightarrow> string \<Rightarrow> string list" where
  "split_once sep s =
     (case dropWhile (\<lambda>c. c \<noteq> sep) s of
        [] \<Rightarrow> [s]
      | _ # rest \<Rightarrow> [takeWhile (\<lambda>c. c \<noteq> sep) s, rest])"

text \<open>
  \<open>s.split(maxsplit=k)\<close>: fields are runs of non-whitespace; after \<open>k\<close> cuts the rest of the
  text, without its leading whitespace, is the last field.
\<close>

function split_ws :: "nat \<Rightarrow> string \<Rightarrow> string list" where
  "split_ws k s =
     (let t = dropWhile is_space s
      in if t = [] then []
         else if k = 0 then [t]
         else takeWhile (\<lambda>c. \<not> is_space c) t
              # split_ws (k - 1) (dropWhile (\<lambda>c. \<not> is_space c) t))"
  by pat_completeness auto
termination
proof (relation "measure (\<lambda>(k, s). length s)")
  show "wf (measure (\<lambda>(k, s). length s))" by simp
next
  fix k :: nat and s t :: string
  assume t: "t = dropWhile is_space s" and ne: "t \<noteq> []"
  have "length (dropWhile (\<lambda>c. \<not> is_space c) t) < length t"
  proof (cases t)
    case Nil
    with ne show ?thesis by simp
  next
    case (Cons c cs)
    have "\<not> is_space (hd t)"
      unfolding t using ne [unfolded t] by (rule hd_dropWhile)
    then have "\<not> is_space c"
      unfolding Cons by simp
    then have "dropWhile (\<lambda>c. \<not> is_space c) t = dropWhile (\<lambda>c. \<not> is_space c) cs"
      using Cons by simp
    then show ?thesis
      using length_dropWhile_le [of "\<lambda>c. \<not> is_space c" cs] Cons by simp
  qed
  moreover have "length t \<le> length s"
    using t length_dropWhile_le [of is_space s] by simp
  ultimately show "((k - 1, dropWhile (\<lambda>c. \<not> is_space c) t), (k, s))
      \<in> measure (\<lambda>(k, s). length s)"
    by simp
qed

declare split_ws.simps [simp del]

text \<open>The line boundaries of \<open>str.splitlines()\<close> other than the pair CR LF.\<close>

definition is_linebreak :: "char \<Rightarrow> bool" where
  "is_linebreak c =
     (let n = code_point c
      in (10 \<le> n \<and> n \<le> 13) \<or> (28 \<le> n \<and> n \<le> 30) \<or> n = 133)"

text \<open>
  \<open>s.splitlines()\<close>: the accumulator holds the current line reversed; CR LF counts as one
  boundary; a boundary at the very end opens no further line.
\<close>

fun splitlines_acc :: "string \<Rightarrow> string \<Rightarrow> string list" where
  "splitlines_acc acc [] = (if acc = [] then [] else [rev acc])"
| "splitlines_acc acc [c] = (if is_linebreak c then [rev acc] else [rev (c # acc)])"
| "splitlines_acc acc (c # d # ds) =
     (if code_point c = 13 \<and> code_point d = 10 then rev acc # splitlines_acc [] ds
      else if is_linebreak c then rev acc # splitlines_acc [] (d # ds)
      else splitlines_acc (c # acc) (d # ds))"

definition splitlines :: "string \<Rightarrow> string list" where
  "splitlines s = splitlines_acc [] s"

text \<open>Decimal text of a number, as an f-string prints it.\<close>

function show_nat :: "nat \<Rightarrow> string" where
  "show_nat n =
     (if n < 10 then [char_of (48 + n)]
      else show_nat (n div 10) @ [char_of (48 + n mod 10)])"
  by pat_completeness auto
termination
  by (relation "measure id") auto

declare show_nat.simps [simp del]

definition show_int :: "int \<Rightarrow> string" where
  "show_int i = (if i < 0 then CHR ''-'' # show_nat (nat (- i)) else show_nat (nat i))"

text \<open>\<open>sep.join(xs)\<close>\<close>

fun join :: "string \<Rightarrow> string list \<Rightarrow> string" where
  "join sep [] = []"
| "join sep [x] = x"
| "join sep (x # y # ys) = x @ sep @ join sep (y # ys)"

text \<open>
  \<open>repr\<close> of a string and of a list of strings, which the f-string of the runner's
  internal-error report prints: single quotes unless the text has a single quote and no
  double quote; backslash, the quote, tab, newline and carriage return escaped; every other
  non-printable code point as \<open>\xhh\<close>.
\<close>

definition hex_digit :: "nat \<Rightarrow> char" where
  "hex_digit n = (if n < 10 then char_of (48 + n) else char_of (87 + n))"

definition is_printable :: "char \<Rightarrow> bool" where
  "is_printable c =
     (let n = code_point c in (32 \<le> n \<and> n \<le> 126) \<or> (161 \<le> n \<and> n \<noteq> 173))"

definition repr_char :: "char \<Rightarrow> char \<Rightarrow> string" where
  "repr_char q c =
     (let n = code_point c
      in if c = q \<or> n = 92 then [CHR 0x5C, c]
         else if n = 9 then [CHR 0x5C, CHR ''t'']
         else if n = 10 then [CHR 0x5C, CHR ''n'']
         else if n = 13 then [CHR 0x5C, CHR ''r'']
         else if is_printable c then [c]
         else [CHR 0x5C, CHR ''x'', hex_digit (n div 16), hex_digit (n mod 16)])"

definition repr_str :: "string \<Rightarrow> string" where
  "repr_str s =
     (let q = (if CHR 0x27 \<in> set s \<and> CHR 0x22 \<notin> set s then CHR 0x22 else CHR 0x27)
      in q # concat (map (repr_char q) s) @ [q])"

definition repr_list :: "string list \<Rightarrow> string" where
  "repr_list xs = ''['' @ join '', '' (map repr_str xs) @ '']''"

section \<open>The process runner\<close>

text \<open>
  What \<open>subprocess.run\<close> can do: complete with standard output, standard error and an exit
  code, or raise \<open>FileNotFoundError\<close>, \<open>TimeoutExpired\<close> or another exception (with its
  text).
\<close>

datatype proc_outcome =
    Completed string string int
  | File_not_found
  | Timeout_expired
  | Other_exception string

text \<open>
  The operating system is a parameter: \<open>run_process\<close> answers \<open>subprocess.run\<close> for an
  argument vector and a timeout, \<open>path_exists\<close> answers \<open>os.path.exists\<close> and
  \<open>basename\<close> is \<open>os.path.basename\<close>; \<open>wait_times_out p t\<close> tells whether \<open>p.wait(timeout=t)\<close>
  raises \<open>TimeoutExpired\<close>. The world \<open>'w\<close> is whatever the outside holds
  (devices, files); running a process may change it.
\<close>

record 'w os_env =
  run_process :: "string list \<Rightarrow> nat \<Rightarrow> 'w \<Rightarrow> proc_outcome \<times> 'w"
  path_exists :: "string \<Rightarrow> 'w \<Rightarrow> bool"
  basename :: "string \<Rightarrow> string"
  wait_times_out :: "nat \<Rightarrow> nat \<Rightarrow> 'w \<Rightarrow> bool"

text \<open>What is done to a child process opened with \<open>subprocess.Popen\<close>.\<close>

datatype proc_event = Popen "string list" | Terminate nat | Wait nat nat | Kill nat

text \<open>
  An \<open>AdbManager\<close> object together with what it has done so far: \<open>invocations\<close> lists the
  argument vector of every \<open>subprocess.run\<close> call, oldest first, and \<open>status_log\<close> every
  \<open>_update_status(message, level)\<close> report, oldest first. \<open>logcat_process\<close> is the handle of
  the log stream's child process (\<open>None\<close> as in Python), \<open>logcat_thread\<close> the command that the
  started worker thread opens, \<open>stop_logcat_event\<close> the flag of the
  \<open>threading.Event\<close>, and \<open>process_log\<close> lists what was done to child processes, oldest first.
\<close>

record 'w adb_manager =
  adb_available :: bool
  world :: 'w
  invocations :: "string list list"
  status_log :: "(string \<times> string) list"
  logcat_process :: "nat option"
  logcat_thread :: "string list option"
  stop_logcat_event :: bool
  process_log :: "proc_event list"

type_synonym run_result = "string option \<times> string \<times> int"

definition update_status :: "string \<Rightarrow> string \<Rightarrow> 'w adb_manager \<Rightarrow> 'w adb_manager" where
  "update_status message level st = st\<lparr>status_log := status_log st @ [(message, level)]\<rparr>"

text \<open>\<open>_run_adb_command(command, timeout)\<close>: the result triple and the manager afterwards.\<close>

definition run_adb_command ::
  "'w os_env \<Rightarrow> string list \<Rightarrow> nat \<Rightarrow> 'w adb_manager \<Rightarrow> run_result \<times> 'w adb_manager" where
  "run_adb_command E command timeout st =
     (if \<not> adb_available st then
        ((None, ''ADB not available'', 1),
         update_status ''ADB is not available. Cannot run command.'' ''error'' st)
      else if command = [] \<or> lower (hd command) \<noteq> ''adb'' then
        ((None, ''Invalid command format'', 1),
         update_status (''Internal Error: Command does not start with '' @ [CHR 0x27] @ ''adb''
                          @ [CHR 0x27] @ '': '' @ repr_list command) ''error'' st)
      else
        (let (outcome, w') = run_process E command timeout (world st);
             st1 = st\<lparr>world := w', invocations := invocations st @ [command]\<rparr>
         in case outcome of
              Completed out err rc \<Rightarrow>
                (if rc \<noteq> 0 then
                   ((Some out, err, rc),
                    update_status
                      (''ADB Command Error: '' @
                         (if strip err \<noteq> [] then strip err
                          else ''ADB command failed with return code '' @ show_int rc @ ''.''))
                      ''error'' st1)
                 else if strip err \<noteq> [] then
                   ((Some out, err, rc),
                    update_status (''ADB Command Warning: '' @ strip err) ''warning'' st1)
                 else ((Some out, err, rc), st1))
            | File_not_found \<Rightarrow>
                ((None, ''ADB command not found'', 1),
                 update_status ''Error: ADB command not found during execution. Check PATH.''
                   ''error'' st1)
            | Timeout_expired \<Rightarrow>
                ((None, ''Command timed out'', 1),
                 update_status (''Error: ADB command timed out after '' @ show_nat timeout
                                  @ '' seconds.'') ''error'' st1)
            | Other_exception e \<Rightarrow>
                ((None, e, 1),
                 update_status (''An unexpected error occurred while running ADB command: '' @ e)
                   ''error'' st1)))"

section \<open>Reboot\<close>

definition valid_modes :: "string list" where
  "valid_modes = ['''', ''recovery'', ''bootloader'', ''sideload'', ''sideload-auto-reboot'']"

definition invalid_mode_message :: "string \<Rightarrow> string" where
  "invalid_mode_message mode =
     ''Error: Invalid reboot mode '' @ [CHR 0x27] @ mode @ [CHR 0x27]
       @ ''. Valid modes are: '' @ join '', '' valid_modes @ ''.''"

definition reboot_device ::
  "'w os_env \<Rightarrow> string \<Rightarrow> string \<Rightarrow> 'w adb_manager \<Rightarrow> bool \<times> 'w adb_manager" where
  "reboot_device E serial mode st =
     (if \<not> adb_available st then (False, st)
      else if serial = [] then
        (False, update_status ''Error: No device selected to reboot.'' ''error'' st)
      else if mode \<notin> set valid_modes then
        (False, update_status (invalid_mode_message mode) ''error'' st)
      else
        (let command = [''adb'', ''-s'', serial, ''reboot''] @ (if mode \<noteq> [] then [mode] else []);
             st1 = (if mode \<noteq> [] then
                      update_status (''Sending command: Rebooting device '' @ serial @ '' to ''
                                       @ mode @ ''...'') ''info'' st
                    else
                      update_status (''Sending command: Rebooting device '' @ serial
                                       @ '' normally...'') ''info'' st);
             ((out, err, rc), st2) = run_adb_command E command 10 st1
         in if rc = 0 \<and> strip err = [] then
              (True, update_status (''Reboot command sent successfully to '' @ serial @ ''.'')
                       ''info'' st2)
            else (False, st2)))"


text \<open>
  \<open>returncode == 0 and stdout\<close>: the standard output when the exit code is 0 and the output is
  neither \<open>None\<close> nor empty.
\<close>

definition ok_output :: "run_result \<Rightarrow> string option" where
  "ok_output r =
     (case r of (out, err, rc) \<Rightarrow>
        (if rc = 0 then (case out of None \<Rightarrow> None | Some s \<Rightarrow> if s \<noteq> [] then Some s else None)
         else None))"

text \<open>Exceptions the modelled methods could raise.\<close>

datatype py_error = AttributeError string | IndexError

text \<open>\<open>xs[i]\<close> for an index that is not negative.\<close>

definition item :: "'a list \<Rightarrow> nat \<Rightarrow> py_error + 'a" where
  "item xs i = (if i < length xs then Inr (xs ! i) else Inl IndexError)"

section \<open>Listing devices\<close>

record device =
  device_serial :: string
  device_state :: string
  device_description :: string

definition parse_warning :: "string \<Rightarrow> string" where
  "parse_warning line =
     ''Warning: Could not fully parse device line: '' @ [CHR 0x27] @ line @ [CHR 0x27]"

text \<open>The loop over the lines of the listing; \<open>devices\<close> is the list built so far.\<close>

fun parse_device_lines ::
  "string list \<Rightarrow> device list \<Rightarrow> 'w adb_manager \<Rightarrow> device list \<times> 'w adb_manager" where
  "parse_device_lines [] devices st = (devices, st)"
| "parse_device_lines (l # ls) devices st =
     (let line = strip l
      in if line = [] then parse_device_lines ls devices st
         else
           (let parts = split_ws 2 line
            in if length parts \<ge> 2 then
                 parse_device_lines ls
                   (devices @ [\<lparr>device_serial = parts ! 0, device_state = parts ! 1,
                                device_description = (if length parts > 2 then parts ! 2 else [])\<rparr>])
                   st
               else
                 parse_device_lines ls devices (update_status (parse_warning line) ''warning'' st)))"

text \<open>The lines that the loop runs over: the listing stripped, cut at newlines, without a header line.\<close>

definition device_lines :: "string \<Rightarrow> string list" where
  "device_lines stdout =
     (let lines = split_on CHR 0x0A (strip stdout)
      in if lines \<noteq> [] \<and> sublist ''List of devices attached'' (hd lines) then tl lines
         else lines)"

text \<open>The body of \<open>list_devices\<close> after a successful run with a non-empty listing.\<close>

definition parse_devices :: "string \<Rightarrow> 'w adb_manager \<Rightarrow> device list \<times> 'w adb_manager" where
  "parse_devices stdout st =
     (let (devices, st1) = parse_device_lines (device_lines stdout) [] st
      in if devices \<noteq> [] then (devices, st1)
         else if strip stdout = [] then (devices, update_status ''No devices found.'' ''info'' st1)
         else (devices, st1))"

definition list_devices :: "'w os_env \<Rightarrow> 'w adb_manager \<Rightarrow> device list \<times> 'w adb_manager" where
  "list_devices E st =
     (if \<not> adb_available st then ([], st)
      else
        (let st1 = update_status ''Searching for devices...'' ''info'' st;
             (r, st2) = run_adb_command E [''adb'', ''devices'', ''-l''] 20 st1
         in case ok_output r of
              None \<Rightarrow> ([], st2)
            | Some stdout \<Rightarrow> parse_devices stdout st2))"

section \<open>Connecting\<close>

definition connect_device ::
  "'w os_env \<Rightarrow> string \<Rightarrow> 'w adb_manager \<Rightarrow> (py_error + bool) \<times> 'w adb_manager" where
  "connect_device E address st =
     (if \<not> adb_available st then (Inr False, st)
      else if address = [] then
        (Inr False, update_status ''Error: IP address is empty for connection.'' ''error'' st)
      else
        (let st1 = update_status (''Attempting to connect to '' @ address @ ''...'') ''info'' st;
             ((out, err, rc), st2) = run_adb_command E [''adb'', ''connect'', address] 15 st1
         in if rc = 0 then
              (case out of
                 None \<Rightarrow> (Inl (AttributeError ''lower''), st2)
               | Some stdout \<Rightarrow>
                   (let stdout_lower = lower stdout
                    in if sublist ''connected to'' stdout_lower
                          \<or> sublist ''already connected'' stdout_lower then (Inr True, st2)
                       else if sublist '' connection refused'' stdout_lower then
                         (Inr False,
                          update_status (''Connection failed for '' @ address
                            @ '': Connection refused. Is ADB over TCP enabled on the device?'')
                            ''error'' st2)
                       else if sublist '' unable to connect'' stdout_lower
                               \<or> sublist ''failed to connect'' stdout_lower then
                         (Inr False,
                          update_status (''Connection failed for '' @ address @ '': '' @ strip stdout)
                            ''error'' st2)
                       else
                         (Inr True,
                          update_status (''Connect command successful for '' @ address
                            @ '', but output was unexpected: '' @ strip stdout) ''warning'' st2)))
            else (Inr False, st2)))"

section \<open>Device information\<close>

record device_info =
  info_serial :: string
  info_model :: string
  info_version :: string
  info_display_name :: string
  info_battery_level :: string

definition prop_names_to_try :: "string list" where
  "prop_names_to_try =
     [''ro.product.marketname'',
      ''ro.product.vendor.marketname'',
      ''ro.product.odm.marketname'',
      ''ro.product.system_dlkm.marketname'',
      ''ro.product.bootimage.marketname'',
      ''ro.product.display'',
      ''ro.product.name'',
      ''ro.product.device'',
      ''ro.product.model'',
      ''ro.vendor.product.model'',
      ''ro.system.product.model'',
      ''ro.system_ext.product.model'',
      ''ro.odm.product.model'']"

definition getprop_command :: "string \<Rightarrow> string \<Rightarrow> string list" where
  "getprop_command serial prop_name = [''adb'', ''-s'', serial, ''shell'', ''getprop'', prop_name]"

text \<open>
  A property probe's value: \<open>stdout.strip().strip("'\"\r")\<close> after a successful run with output,
  when it is not empty.
\<close>

definition prop_value :: "run_result \<Rightarrow> string option" where
  "prop_value r =
     (case ok_output r of
        None \<Rightarrow> None
      | Some stdout \<Rightarrow>
          (let v = strip_quotes (strip stdout) in if v \<noteq> [] then Some v else None))"

definition battery_warning :: "string \<Rightarrow> string" where
  "battery_warning line =
     ''Warning: Could not parse battery level line: '' @ [CHR 0x27] @ line @ [CHR 0x27]"

text \<open>
  The loop over the lines of the battery dump: the new value of \<open>info['battery_level']\<close> when
  the loop sets it (and breaks), \<open>None\<close> when it runs to the end.
\<close>

fun parse_battery :: "string list \<Rightarrow> 'w adb_manager \<Rightarrow> string option \<times> 'w adb_manager" where
  "parse_battery [] st = (None, st)"
| "parse_battery (l # ls) st =
     (let line = strip l
      in if prefix ''level:'' line then
           (case item (split_on CHR '':'' line) 1 of
              Inr f \<Rightarrow> (Some (strip f @ ''%''), st)
            | Inl e \<Rightarrow> parse_battery ls (update_status (battery_warning line) ''warning'' st))
         else parse_battery ls st)"

text \<open>
  The loop over the candidate properties: \<open>fetched\<close> is \<open>fetched_values\<close> and \<open>best\<close> is
  \<open>best_display_name_found\<close>.
\<close>

fun fetch_candidates ::
  "'w os_env \<Rightarrow> string \<Rightarrow> string list \<Rightarrow> (string \<rightharpoonup> string) \<Rightarrow> string option \<Rightarrow> 'w adb_manager
     \<Rightarrow> (string \<rightharpoonup> string) \<times> string option \<times> 'w adb_manager" where
  "fetch_candidates E serial [] fetched best st = (fetched, best, st)"
| "fetch_candidates E serial (prop_name # rest) fetched best st =
     (if prop_name \<in> set [''ro.product.model'', ''ro.build.version.release''] then
        fetch_candidates E serial rest fetched best st
      else
        (let (r, st1) = run_adb_command E (getprop_command serial prop_name) 5 st
         in case prop_value r of
              None \<Rightarrow> fetch_candidates E serial rest fetched best st1
            | Some v \<Rightarrow>
                (let fetched1 = fetched(prop_name \<mapsto> v);
                     best1 =
                       (if best = None then
                          (if fetched1 ''ro.product.model'' = Some v then
                             (if sublist ''marketname'' (lower prop_name) then Some v else best)
                           else Some v)
                        else best)
                 in fetch_candidates E serial rest fetched1 best1 st1)))"

text \<open>The last step: the display name from the best candidate, the model and the serial.\<close>

definition finalize_display_name :: "string option \<Rightarrow> string \<Rightarrow> string \<Rightarrow> string" where
  "finalize_display_name best model serial =
     (let fallback = (if model \<notin> set [''N/A'', ''Error''] then model else serial)
      in case best of
           None \<Rightarrow> fallback
         | Some b \<Rightarrow> if b \<noteq> [] \<and> b \<notin> set [''N/A'', ''Error'', []] then b else fallback)"

text \<open>
  The three dedicated probes of \<open>get_device_info\<close>, each with the manager it leaves: the model
  and the Android version (the fetched value, \<open>None\<close> when the flag in
  \<open>essential_info_fetched\<close> stays \<open>False\<close>), and the battery (the value of
  \<open>info['battery_level']\<close> afterwards).
\<close>

definition fetch_model ::
  "'w os_env \<Rightarrow> string \<Rightarrow> 'w adb_manager \<Rightarrow> string option \<times> 'w adb_manager" where
  "fetch_model E serial st =
     (let (r, st1) = run_adb_command E (getprop_command serial ''ro.product.model'') 5 st
      in (prop_value r, st1))"

definition fetch_version ::
  "'w os_env \<Rightarrow> string \<Rightarrow> 'w adb_manager \<Rightarrow> string option \<times> 'w adb_manager" where
  "fetch_version E serial st =
     (let (r, st1) = run_adb_command E (getprop_command serial ''ro.build.version.release'') 5 st
      in (prop_value r, st1))"

definition battery_level_from_dump :: "string \<Rightarrow> 'w adb_manager \<Rightarrow> string \<times> 'w adb_manager" where
  "battery_level_from_dump stdout_battery st =
     (let (found, st1) = parse_battery (splitlines stdout_battery) st
      in (case found of Some b \<Rightarrow> b | None \<Rightarrow> ''N/A'', st1))"

definition fetch_battery ::
  "'w os_env \<Rightarrow> string \<Rightarrow> 'w adb_manager \<Rightarrow> string \<times> 'w adb_manager" where
  "fetch_battery E serial st =
     (let (r, st1) =
            run_adb_command E [''adb'', ''-s'', serial, ''shell'', ''dumpsys'', ''battery''] 5 st
      in case ok_output r of
           None \<Rightarrow> (''N/A'', st1)
         | Some stdout_battery \<Rightarrow> battery_level_from_dump stdout_battery st1)"

definition get_device_info ::
  "'w os_env \<Rightarrow> string \<Rightarrow> 'w adb_manager \<Rightarrow> device_info option \<times> 'w adb_manager" where
  "get_device_info E serial st =
     (if \<not> adb_available st then (None, st)
      else if serial = [] then
        (None, update_status ''Error: No device selected to get info.'' ''error'' st)
      else
        (let st0 = update_status (''Fetching info for device '' @ serial @ ''...'') ''info'' st;
             (model_fetched, st1) = fetch_model E serial st0;
             model = (case model_fetched of Some v \<Rightarrow> v | None \<Rightarrow> ''N/A'');
             fetched = (case model_fetched of
                          Some v \<Rightarrow> [''ro.product.model'' \<mapsto> v]
                        | None \<Rightarrow> Map.empty);
             (version_fetched, st2) = fetch_version E serial st1;
             version = (case version_fetched of Some v \<Rightarrow> v | None \<Rightarrow> ''N/A'');
             (battery_level, st3) = fetch_battery E serial st2;
             (fetched_values, best, st4) =
               fetch_candidates E serial prop_names_to_try fetched None st3;
             info = \<lparr>info_serial = serial, info_model = model, info_version = version,
                     info_display_name = finalize_display_name best model serial,
                     info_battery_level = battery_level\<rparr>
         in if model_fetched = None \<and> version_fetched = None then
              (None,
               update_status (''Failed to fetch essential model/version info for device ''
                                @ serial @ ''.'') ''error'' st4)
            else
              (Some info, update_status (''Info fetch complete for '' @ serial @ ''.'') ''info'' st4)))"

section \<open>Installing, uninstalling and disabling\<close>

definition install_apk ::
  "'w os_env \<Rightarrow> string \<Rightarrow> string \<Rightarrow> 'w adb_manager \<Rightarrow> (py_error + bool) \<times> 'w adb_manager" where
  "install_apk E serial apk_path st =
     (if \<not> adb_available st then (Inr False, st)
      else if serial = [] \<or> apk_path = [] then
        (Inr False,
         update_status ''Error: Device and APK path must be specified for installation.''
           ''error'' st)
      else if \<not> path_exists E apk_path (world st) then
        (Inr False, update_status (''Error: APK file not found at '' @ apk_path) ''error'' st)
      else
        (let st1 = update_status (''Sending command: Installing '' @ basename E apk_path @ '' on ''
                                    @ serial @ ''...'') ''info'' st;
             ((out, err, rc), st2) =
               run_adb_command E [''adb'', ''-s'', serial, ''install'', ''-r'', apk_path] 300 st1
         in if rc = 0 then
              (case out of
                 None \<Rightarrow> (Inl (AttributeError ''lower''), st2)
               | Some stdout \<Rightarrow>
                   (if sublist ''success'' (lower stdout) then
                      (Inr True,
                       update_status (''Successfully installed '' @ basename E apk_path @ ''.'')
                         ''info'' st2)
                    else if sublist ''failure'' (lower stdout) then
                      (Inr False,
                       update_status (''Installation reported failure: '' @ strip stdout)
                         ''error'' st2)
                    else (Inr False, st2)))
            else (Inr False, st2)))"



section \<open>Package details\<close>

record package_details =
  details_package_name :: string
  details_version_name :: string
  details_version_code :: string
  details_installer :: string
  details_first_install_time :: string
  details_last_update_time :: string
  details_uid :: string
  details_permissions :: "string list"

text \<open>The dictionary \<open>details\<close> as \<open>get_package_details\<close> first builds it.\<close>

definition initial_details :: "string \<Rightarrow> package_details" where
  "initial_details package_name =
     \<lparr>details_package_name = package_name,
      details_version_name = ''Unknown'',
      details_version_code = ''Unknown'',
      details_installer = ''Unknown'',
      details_first_install_time = ''Unknown'',
      details_last_update_time = ''Unknown'',
      details_uid = ''Unknown'',
      details_permissions = []\<rparr>"

text \<open>\<open>line.split('=', 1)[1]\<close>\<close>

definition after_equals :: "string \<Rightarrow> py_error + string" where
  "after_equals line = item (split_once CHR ''='' line) 1"

text \<open>The loop over the lines of the package dump; an uncaught exception ends it.\<close>

fun parse_detail_lines ::
  "string list \<Rightarrow> bool \<Rightarrow> package_details \<Rightarrow> py_error + package_details" where
  "parse_detail_lines [] reading_perms details = Inr details"
| "parse_detail_lines (l # ls) reading_perms details =
     (let line = strip l
      in if prefix ''versionName='' line then
           (case after_equals line of
              Inl e \<Rightarrow> Inl e
            | Inr v \<Rightarrow> parse_detail_lines ls reading_perms (details\<lparr>details_version_name := v\<rparr>))
         else if prefix ''versionCode='' line then
           (case after_equals line of
              Inl e \<Rightarrow> Inl e
            | Inr v \<Rightarrow>
                (case item (split_once CHR '' '' v) 0 of
                   Inl e \<Rightarrow> Inl e
                 | Inr c \<Rightarrow>
                     parse_detail_lines ls reading_perms (details\<lparr>details_version_code := c\<rparr>)))
         else if prefix ''installerPackageName='' line then
           (case after_equals line of
              Inl e \<Rightarrow> Inl e
            | Inr v \<Rightarrow> parse_detail_lines ls reading_perms (details\<lparr>details_installer := v\<rparr>))
         else if prefix ''firstInstallTime='' line then
           (case after_equals line of
              Inl e \<Rightarrow> Inl e
            | Inr v \<Rightarrow>
                parse_detail_lines ls reading_perms (details\<lparr>details_first_install_time := v\<rparr>))
         else if prefix ''lastUpdateTime='' line then
           (case after_equals line of
              Inl e \<Rightarrow> Inl e
            | Inr v \<Rightarrow>
                parse_detail_lines ls reading_perms (details\<lparr>details_last_update_time := v\<rparr>))
         else if prefix ''userId='' line then
           (case after_equals line of
              Inl e \<Rightarrow> Inl e
            | Inr v \<Rightarrow> parse_detail_lines ls reading_perms (details\<lparr>details_uid := v\<rparr>))
         else if prefix ''requested permissions:'' line then parse_detail_lines ls True details
         else if reading_perms then
           (if prefix ''install permissions:'' line \<or> prefix ''runtime permissions:'' line
               \<or> line = [] then
              parse_detail_lines ls False details
            else
              parse_detail_lines ls reading_perms
                (details\<lparr>details_permissions := details_permissions details @ [line]\<rparr>))
         else parse_detail_lines ls reading_perms details)"

definition get_package_details ::
  "'w os_env \<Rightarrow> string \<Rightarrow> string \<Rightarrow> 'w adb_manager
     \<Rightarrow> (py_error + package_details option) \<times> 'w adb_manager" where
  "get_package_details E serial package_name st =
     (if \<not> adb_available st then (Inr None, st)
      else if serial = [] \<or> package_name = [] then (Inr None, st)
      else
        (let st1 = update_status (''Fetching details for '' @ package_name @ ''...'') ''info'' st;
             (r, st2) =
               run_adb_command E
                 [''adb'', ''-s'', serial, ''shell'', ''dumpsys'', ''package'', package_name] 10 st1;
             details = initial_details package_name
         in case ok_output r of
              None \<Rightarrow> (Inr (Some details), st2)
            | Some stdout \<Rightarrow>
                (case parse_detail_lines (splitlines stdout) False details of
                   Inl e \<Rightarrow> (Inl e, st2)
                 | Inr d \<Rightarrow> (Inr (Some d), st2))))"


section \<open>The log stream\<close>

text \<open>
  The names an \<open>AdbManager\<close> object has: the attributes that \<open>__init__\<close> assigns and the
  functions that the class body defines. The source's \<open>def stop_logcat(self)\<close> stands inside
  the body of \<open>start_logcat\<close>, after its last statement, so it binds a local name of that
  call and adds nothing to the class.
\<close>

definition adb_manager_attributes :: "string list" where
  "adb_manager_attributes =
     [''status_callback'', ''adb_available'', ''logcat_process'', ''logcat_thread'',
      ''_stop_logcat_event'',
      ''__init__'', ''_is_adb_available'', ''_run_adb_command'', ''_update_status'',
      ''list_devices'', ''connect_device'', ''get_device_info'', ''reboot_device'',
      ''power_off_device'', ''install_apk'', ''list_packages'', ''uninstall_package'',
      ''disable_package'', ''get_package_details'', ''start_logcat'']"

text \<open>
  The function that \<open>start_logcat\<close> defines locally under the name \<open>stop_logcat\<close>: set the
  stop event, and when a process is held terminate it, wait one second for it, kill it if the
  wait times out, forget it and report.
\<close>

definition stop_logcat_local :: "'w os_env \<Rightarrow> 'w adb_manager \<Rightarrow> 'w adb_manager" where
  "stop_logcat_local E st =
     (let st1 = st\<lparr>stop_logcat_event := True\<rparr>
      in case logcat_process st1 of
           None \<Rightarrow> st1
         | Some p \<Rightarrow>
             (let st2 = st1\<lparr>process_log := process_log st1 @ [Terminate p]\<rparr>;
                  st3 = st2\<lparr>process_log := process_log st2 @ [Wait p 1]\<rparr>;
                  st4 = (if wait_times_out E p 1 (world st3)
                         then st3\<lparr>process_log := process_log st3 @ [Kill p]\<rparr> else st3)
              in update_status ''Logcat stopped.'' ''info'' (st4\<lparr>logcat_process := None\<rparr>)))"

text \<open>
  The call \<open>self.stop_logcat()\<close>: attribute lookup on the object, which raises
  \<open>AttributeError\<close> for a name the object does not have. No attribute of the object is
  the local function above, so the call has no other outcome to model.
\<close>

definition self_stop_logcat :: "'w adb_manager \<Rightarrow> py_error + 'w adb_manager" where
  "self_stop_logcat st =
     (if ''stop_logcat'' \<in> set adb_manager_attributes then Inr st
      else Inl (AttributeError ''stop_logcat''))"

definition logcat_command :: "string \<Rightarrow> string list" where
  "logcat_command serial = [''adb'', ''-s'', serial, ''logcat'', ''-v'', ''time'']"

text \<open>
  \<open>start_logcat(serial, callback)\<close> on the calling thread: the exception it raises, if any, and
  the manager afterwards. The worker thread it starts runs on its own; its first statement
  opens the child process and stores the handle (\<open>logcat_worker_popen\<close>).
\<close>

definition start_logcat ::
  "'w os_env \<Rightarrow> string \<Rightarrow> 'w adb_manager \<Rightarrow> py_error option \<times> 'w adb_manager" where
  "start_logcat E serial st =
     (if \<not> adb_available st \<or> serial = [] then
        (None, update_status ''Cannot start Logcat: ADB unavailable or no device.'' ''error'' st)
      else
        (case (if logcat_process st \<noteq> None then self_stop_logcat st else Inr st) of
           Inl e \<Rightarrow> (Some e, st)
         | Inr st1 \<Rightarrow>
             (let st2 = st1\<lparr>stop_logcat_event := False\<rparr>;
                  st3 = st2\<lparr>logcat_thread := Some (logcat_command serial)\<rparr>
              in (None, update_status (''Logcat started for '' @ serial @ ''.'') ''info'' st3))))"

definition logcat_worker_popen :: "'w adb_manager \<Rightarrow> 'w adb_manager" where
  "logcat_worker_popen st =
     (case logcat_thread st of
        None \<Rightarrow> st
      | Some command \<Rightarrow>
          st\<lparr>logcat_process := Some (length (process_log st)),
             process_log := process_log st @ [Popen command]\<rparr>)"

section \<open>Batch uninstall\<close>

text \<open>What \<open>_perform_uninstall_threaded\<close> hands to the GUI thread with \<open>self.after(0, ...)\<close>.\<close>

datatype gui_call =
    Enable_functionality_widgets bool
  | Disable_refresh_app_list_button
  | Disable_uninstall_selected_button
  | Update_status string string
  | Handle_uninstall_result_gui string string
  | List_apps_in_gui

text \<open>A call of the manager made by the batch, with the value it returned.\<close>

datatype manager_call =
    Uninstall_package string string bool
  | Disable_package string string bool

text \<open>
  The application: its manager, the GUI calls scheduled so far (oldest first), and a trace of
  the calls the batch made to the manager (oldest first). The trace is not a variable of the
  source; it records the order of the calls so that theorems can speak about it.
\<close>

record 'w app =
  manager :: "'w adb_manager"
  scheduled :: "gui_call list"
  calls :: "manager_call list"

definition after :: "gui_call \<Rightarrow> 'w app \<Rightarrow> 'w app" where
  "after c a = a\<lparr>scheduled := scheduled a @ [c]\<rparr>"




section \<open>Concrete environments for examples\<close>

text \<open>An environment whose subprocesses answer by a fixed table of argument vectors.\<close>

definition scripted_env :: "(string list \<Rightarrow> proc_outcome) \<Rightarrow> unit os_env" where
  "scripted_env answer =
     \<lparr>run_process = (\<lambda>command timeout w. (answer command, w)),
      path_exists = (\<lambda>path w. True),
      basename = (\<lambda>path. path),
      wait_times_out = (\<lambda>p t w. False)\<rparr>"

definition new_manager :: "unit adb_manager" where
  "new_manager =
     \<lparr>adb_available = True, world = (), invocations = [], status_log = [],
      logcat_process = None, logcat_thread = None, stop_logcat_event = False,
      process_log = []\<rparr>"


definition silent :: "string list \<Rightarrow> proc_outcome" where
  "silent command = Completed [] [] 0"

section \<open>The runner's answer as a function of the subprocess outcome\<close>

text \<open>
  What \<open>_run_adb_command\<close> returns and reports for each outcome of \<open>subprocess.run\<close>, read
  off its branches; the lemma \<open>run_adb_command_outcome\<close> proves that the runner above
  agrees with them.
\<close>

definition outcome_result :: "proc_outcome \<Rightarrow> run_result" where
  "outcome_result outcome =
     (case outcome of
        Completed out err rc \<Rightarrow> (Some out, err, rc)
      | File_not_found \<Rightarrow> (None, ''ADB command not found'', 1)
      | Timeout_expired \<Rightarrow> (None, ''Command timed out'', 1)
      | Other_exception e \<Rightarrow> (None, e, 1))"

definition outcome_reports :: "nat \<Rightarrow> proc_outcome \<Rightarrow> (string \<times> string) list" where
  "outcome_reports timeout outcome =
     (case outcome of
        Completed out err rc \<Rightarrow>
          (if rc \<noteq> 0 then
             [(''ADB Command Error: '' @
                 (if strip err \<noteq> [] then strip err
                  else ''ADB command failed with return code '' @ show_int rc @ ''.''),
               ''error'')]
           else if strip err \<noteq> [] then [(''ADB Command Warning: '' @ strip err, ''warning'')]
           else [])
      | File_not_found \<Rightarrow>
          [(''Error: ADB command not found during execution. Check PATH.'', ''error'')]
      | Timeout_expired \<Rightarrow>
          [(''Error: ADB command timed out after '' @ show_nat timeout @ '' seconds.'', ''error'')]
      | Other_exception e \<Rightarrow>
          [(''An unexpected error occurred while running ADB command: '' @ e, ''error'')])"

text \<open>An install run that prints neither marker and exits with code 0.\<close>

definition install_streamed :: "string list \<Rightarrow> proc_outcome" where
  "install_streamed command = Completed ''Performing Streamed Install'' [] 0"

text \<open>
  Connect runs that exit with code 0 and print a failure at the start of the output: that no
  connection could be made, and that it was refused.
\<close>

definition connect_unable :: "string list \<Rightarrow> proc_outcome" where
  "connect_unable command = Completed ''unable to connect to 192.168.1.10:5555'' [] 0"

definition connect_refused :: "string list \<Rightarrow> proc_outcome" where
  "connect_refused command = Completed ''Connection refused'' [] 0"

section \<open>Notions used to state the parser properties\<close>

text \<open>
  The header of a device listing, and two readings of which lines are data lines. In the
  words of the specification the header line is discarded if present, wherever it stands:
  \<open>spec_data_lines\<close> cuts the stripped listing into lines, removes the first line that holds
  the header text, strips each line and skips the blank ones. In the amended reading only a
  header that is the first line is discarded: \<open>data_lines\<close> removes the first line when it
  holds the header text and keeps every later line. \<open>header_not_below_first\<close> tells that no
  line after the first holds the header text.
\<close>

definition header_text :: string where
  "header_text = ''List of devices attached''"

fun discard_header :: "string list \<Rightarrow> string list" where
  "discard_header [] = []"
| "discard_header (l # ls) = (if sublist header_text l then ls else l # discard_header ls)"

definition spec_data_lines :: "string \<Rightarrow> string list" where
  "spec_data_lines stdout =
     filter (\<lambda>l. l \<noteq> []) (map strip (discard_header (split_on CHR 0x0A (strip stdout))))"

definition first_line_header_dropped :: "string list \<Rightarrow> string list" where
  "first_line_header_dropped lines =
     (case lines of
        [] \<Rightarrow> []
      | l # ls \<Rightarrow> if sublist header_text l then ls else l # ls)"

definition data_lines :: "string \<Rightarrow> string list" where
  "data_lines stdout =
     filter (\<lambda>l. l \<noteq> [])
       (map strip (first_line_header_dropped (split_on CHR 0x0A (strip stdout))))"

definition header_not_below_first :: "string \<Rightarrow> bool" where
  "header_not_below_first stdout =
     list_all (\<lambda>l. \<not> sublist header_text l) (tl (split_on CHR 0x0A (strip stdout)))"

text \<open>
  A data line is well-formed when it has at least two whitespace-delimited fields;
  \<open>device_of_line\<close> is the record that the loop builds from it.
\<close>

definition well_formed_line :: "string \<Rightarrow> bool" where
  "well_formed_line line = (2 \<le> length (split_ws 2 line))"

definition device_of_line :: "string \<Rightarrow> device" where
  "device_of_line line =
     (let parts = split_ws 2 line
      in \<lparr>device_serial = parts ! 0, device_state = parts ! 1,
          device_description = (if length parts > 2 then parts ! 2 else [])\<rparr>)"

text \<open>
  The listing of the specification's example, and a listing in which a message of the adb
  daemon stands before the header.
\<close>

definition banner_listing :: string where
  "banner_listing =
     ''* daemon started successfully'' @ [CHR 0x0A] @ ''List of devices attached'' @ [CHR 0x0A]
       @ ''emulator-5554'' @ [CHR 0x09] @ ''device'' @ [CHR 0x0A]"


definition example_listing :: string where
  "example_listing =
     ''List of devices attached'' @ [CHR 0x0A] @ ''emulator-5554'' @ [CHR 0x09] @ ''device''
       @ [CHR 0x09] @ ''product:sdk model:sdk device:generic'' @ [CHR 0x0A]"

text \<open>
  The line prefixes that the package detail scanner recognises, and the dumps in which no
  stripped line starts with one of them. A details probe has failed when the run raised,
  exited with a non-zero code or printed nothing.
\<close>

definition recognized_prefixes :: "string list" where
  "recognized_prefixes =
     [''versionName='', ''versionCode='', ''installerPackageName='', ''firstInstallTime='',
      ''lastUpdateTime='', ''userId='', ''requested permissions:'']"

definition recognized_line :: "string \<Rightarrow> bool" where
  "recognized_line line = list_ex (\<lambda>p. prefix p line) recognized_prefixes"

definition unrecognized_dump :: "string \<Rightarrow> bool" where
  "unrecognized_dump stdout = list_all (\<lambda>l. \<not> recognized_line (strip l)) (splitlines stdout)"

definition dump_failed :: "proc_outcome \<Rightarrow> bool" where
  "dump_failed outcome =
     (case outcome of Completed out err rc \<Rightarrow> rc \<noteq> 0 \<or> out = [] | _ \<Rightarrow> True)"

text \<open>A details run whose dump has no recognised line.\<close>

definition dump_without_details :: "string list \<Rightarrow> proc_outcome" where
  "dump_without_details command =
     Completed (''Unable to find package: com.example.app'' @ [CHR 0x0A]) [] 0"

text \<open>
  A property probe has failed when the run raised, exited with a non-zero code, or printed
  nothing but whitespace, quotes and carriage returns: these are the runs after which
  \<open>get_device_info\<close> leaves its flag in \<open>essential_info_fetched\<close> at \<open>False\<close>. Otherwise
  the probe yields the stripped output.
\<close>

definition probe_failed :: "proc_outcome \<Rightarrow> bool" where
  "probe_failed outcome =
     (case outcome of
        Completed out err rc \<Rightarrow> rc \<noteq> 0 \<or> strip_quotes (strip out) = []
      | _ \<Rightarrow> True)"

definition probe_value :: "proc_outcome \<Rightarrow> string" where
  "probe_value outcome =
     (case outcome of Completed out err rc \<Rightarrow> strip_quotes (strip out) | _ \<Rightarrow> [])"

text \<open>
  Device information runs: a device that answers only the model probe, and one whose battery
  dump and secondary properties all fail while the version probe answers.
\<close>

definition only_model :: "string list \<Rightarrow> proc_outcome" where
  "only_model command =
     (if command = getprop_command ''emulator-5554'' ''ro.product.model''
      then Completed (''SM-G960F'' @ [CHR 0x0A]) [] 0
      else Completed [] ''error: closed'' 1)"

definition only_version :: "string list \<Rightarrow> proc_outcome" where
  "only_version command =
     (if command = getprop_command ''emulator-5554'' ''ro.build.version.release''
      then Completed (''14'' @ [CHR 0x0A]) [] 0
      else Timeout_expired)"

text \<open>
  The candidate probes by themselves: the property names that the loop of
  \<open>get_device_info\<close> probes, in order, each with the value its probe yields (\<open>None\<close> when
  the probe fails or the value is empty).
\<close>

fun candidate_values ::
  "'w os_env \<Rightarrow> string \<Rightarrow> string list \<Rightarrow> 'w adb_manager \<Rightarrow> (string \<times> string option) list" where
  "candidate_values E serial [] st = []"
| "candidate_values E serial (prop_name # rest) st =
     (if prop_name \<in> set [''ro.product.model'', ''ro.build.version.release''] then
        candidate_values E serial rest st
      else
        (let (r, st1) = run_adb_command E (getprop_command serial prop_name) 5 st
         in (prop_name, prop_value r) # candidate_values E serial rest st1))"

text \<open>
  The selection rule in the words of the specification: a candidate qualifies when its value
  is not empty and either differs from the fetched model value or comes from a key whose name
  contains \<open>marketname\<close>; the first qualifying candidate in priority order is chosen.
\<close>

definition qualifies :: "string option \<Rightarrow> string \<times> string option \<Rightarrow> bool" where
  "qualifies model_fetched c =
     (snd c \<noteq> None \<and> (snd c \<noteq> model_fetched \<or> sublist ''marketname'' (lower (fst c))))"

definition first_match :: "string option \<Rightarrow> (string \<times> string option) list \<Rightarrow> string option" where
  "first_match model_fetched cands =
     (case find (qualifies model_fetched) cands of None \<Rightarrow> None | Some c \<Rightarrow> snd c)"

text \<open>
  A device with the model \<open>SM-G960F\<close> and the market name \<open>Galaxy S9\<close>, and one whose
  market name property reads \<open>N/A\<close>; every other probe fails.
\<close>

definition galaxy :: "string list \<Rightarrow> proc_outcome" where
  "galaxy command =
     (if command = getprop_command ''emulator-5554'' ''ro.product.model''
      then Completed (''SM-G960F'' @ [CHR 0x0A]) [] 0
      else if command = getprop_command ''emulator-5554'' ''ro.product.marketname''
      then Completed (''Galaxy S9'' @ [CHR 0x0A]) [] 0
      else Completed [] ''error: closed'' 1)"

definition marketname_na :: "string list \<Rightarrow> proc_outcome" where
  "marketname_na command =
     (if command = getprop_command ''emulator-5554'' ''ro.product.model''
      then Completed (''SM-G960F'' @ [CHR 0x0A]) [] 0
      else if command = getprop_command ''emulator-5554'' ''ro.product.marketname''
      then Completed (''N/A'' @ [CHR 0x0A]) [] 0
      else if command = getprop_command ''emulator-5554'' ''ro.product.name''
      then Completed (''starltexx'' @ [CHR 0x0A]) [] 0
      else Completed [] ''error: closed'' 1)"

text \<open>
  The value of the model probe of \<open>get_device_info\<close>, and the manager as its three dedicated
  probes (model, version, battery) leave it, which is where the candidate loop starts.
\<close>

definition model_probe :: "'w os_env \<Rightarrow> string \<Rightarrow> 'w adb_manager \<Rightarrow> string option" where
  "model_probe E serial st =
     fst (fetch_model E serial
            (update_status (''Fetching info for device '' @ serial @ ''...'') ''info'' st))"

definition after_dedicated_probes :: "'w os_env \<Rightarrow> string \<Rightarrow> 'w adb_manager \<Rightarrow> 'w adb_manager" where
  "after_dedicated_probes E serial st =
     snd (fetch_battery E serial
            (snd (fetch_version E serial
                    (snd (fetch_model E serial
                            (update_status (''Fetching info for device '' @ serial @ ''...'')
                               ''info'' st))))))"




text \<open>
  A manager with an active log stream: \<open>start_logcat\<close> was called on a new manager and the
  worker thread has opened the child process.
\<close>

definition streaming_manager :: "unit adb_manager" where
  "streaming_manager =
     logcat_worker_popen (snd (start_logcat (scripted_env silent) ''emulator-5554'' new_manager))"

section \<open>The reboot guard\<close>

text \<open>
  C4, as amended. For every mode outside the five valid modes, \<open>reboot_device\<close> returns
  \<open>False\<close> and starts no subprocess, whatever the serial and the manager: the list of
  subprocess invocations, the world and the child-process log are unchanged. When the tool is
  available and the serial is not empty, it reports exactly one message, the invalid-mode
  error.
\<close>

theorem reboot_rejects_invalid_mode:
  "mode \<notin> set valid_modes \<Longrightarrow>
     fst (reboot_device E serial mode st) = False
     \<and> invocations (snd (reboot_device E serial mode st)) = invocations st
     \<and> world (snd (reboot_device E serial mode st)) = world st
     \<and> process_log (snd (reboot_device E serial mode st)) = process_log st
     \<and> (adb_available st \<and> serial \<noteq> [] \<longrightarrow>
          status_log (snd (reboot_device E serial mode st))
            = status_log st @ [(invalid_mode_message mode, ''error'')])"
  by (simp add: reboot_device_def update_status_def)

theorem reboot_rejects_invalid_mode_witness:
  "''invalid-mode'' \<notin> set valid_modes
   \<and> adb_available new_manager \<and> ''emulator-5554'' \<noteq> []
   \<and> fst (reboot_device (scripted_env silent) ''emulator-5554'' ''invalid-mode'' new_manager)
       = False
   \<and> invocations
        (snd (reboot_device (scripted_env silent) ''emulator-5554'' ''invalid-mode'' new_manager))
       = []
   \<and> status_log
        (snd (reboot_device (scripted_env silent) ''emulator-5554'' ''invalid-mode'' new_manager))
       = [(invalid_mode_message ''invalid-mode'', ''error'')]"
  using reboot_rejects_invalid_mode
          [of "''invalid-mode''" "scripted_env silent" "''emulator-5554''" new_manager]
  by (simp add: valid_modes_def new_manager_def)

text \<open>
  C4 as stated fails for the empty serial: the guard on the serial comes first, so the report
  is the missing-device error and no invalid-mode error is reported.
\<close>

theorem reboot_invalid_mode_counterexample:
  "''invalid-mode'' \<notin> set valid_modes
   \<and> status_log (snd (reboot_device (scripted_env silent) [] ''invalid-mode'' new_manager))
        = [(''Error: No device selected to reboot.'', ''error'')]
   \<and> (invalid_mode_message ''invalid-mode'', ''error'')
        \<notin> set (status_log
                 (snd (reboot_device (scripted_env silent) [] ''invalid-mode'' new_manager)))"
  by (simp add: valid_modes_def new_manager_def reboot_device_def update_status_def
        invalid_mode_message_def)

section \<open>The runner\<close>

lemma lower_adb: "lower ''adb'' = ''adb''"
  by (simp add: lower_def lower_char_def code_point_def)

lemma run_adb_command_outcome:
  assumes "adb_available st" and "run_process E (''adb'' # args) t (world st) = (outcome, w)"
  shows "run_adb_command E (''adb'' # args) t st =
           (outcome_result outcome,
            st\<lparr>world := w, invocations := invocations st @ [''adb'' # args],
               status_log := status_log st @ outcome_reports t outcome\<rparr>)"
  using assms
  by (cases outcome)
     (simp_all add: run_adb_command_def lower_adb outcome_result_def outcome_reports_def
        update_status_def)

section \<open>Install results\<close>

lemma run_after_status:
  assumes "adb_available st" and "run_process E (''adb'' # args) t (world st) = (outcome, w)"
  shows "run_adb_command E (''adb'' # args) t (update_status msg lvl st) =
           (outcome_result outcome,
            st\<lparr>world := w, invocations := invocations st @ [''adb'' # args],
               status_log := status_log st @ [(msg, lvl)] @ outcome_reports t outcome\<rparr>)"
proof -
  have "adb_available (update_status msg lvl st)"
    and "run_process E (''adb'' # args) t (world (update_status msg lvl st)) = (outcome, w)"
    using assms by (simp_all add: update_status_def)
  from run_adb_command_outcome [OF this] show ?thesis
    by (simp add: update_status_def)
qed

text \<open>
  C2, as amended. With the tool available, a serial and an existing APK path, when the install
  subprocess exits with code 0, \<open>install_apk\<close> returns \<open>True\<close> exactly when the lower-cased
  output contains \<open>success\<close>. Otherwise, when the output contains \<open>failure\<close>, it returns \<open>False\<close>
  and reports \<open>Installation reported failure\<close> with the output (a report of its own, not the
  runner's report of a non-zero exit); with neither marker it returns \<open>False\<close> and reports
  nothing more. One subprocess is started.
\<close>

theorem install_apk_exit_zero:
  assumes "adb_available st" and "serial \<noteq> []" and "apk_path \<noteq> []"
    and "path_exists E apk_path (world st)"
    and "run_process E [''adb'', ''-s'', serial, ''install'', ''-r'', apk_path] 300 (world st)
           = (Completed out err 0, w)"
  shows "fst (install_apk E serial apk_path st) = Inr (sublist ''success'' (lower out))
     \<and> invocations (snd (install_apk E serial apk_path st))
         = invocations st @ [[''adb'', ''-s'', serial, ''install'', ''-r'', apk_path]]
     \<and> status_log (snd (install_apk E serial apk_path st))
         = status_log st
           @ [(''Sending command: Installing '' @ basename E apk_path @ '' on '' @ serial @ ''...'',
               ''info'')]
           @ (if strip err \<noteq> [] then [(''ADB Command Warning: '' @ strip err, ''warning'')] else [])
           @ (if sublist ''success'' (lower out) then
                [(''Successfully installed '' @ basename E apk_path @ ''.'', ''info'')]
              else if sublist ''failure'' (lower out) then
                [(''Installation reported failure: '' @ strip out, ''error'')]
              else [])"
  using assms(1-4)
  apply (simp add: install_apk_def run_after_status [OF assms(1) assms(5)] outcome_result_def)
  apply (simp add: outcome_reports_def update_status_def)
  done

theorem install_apk_exit_zero_witness:
  "adb_available new_manager \<and> ''emulator-5554'' \<noteq> [] \<and> ''app.apk'' \<noteq> []
   \<and> path_exists (scripted_env install_streamed) ''app.apk'' (world new_manager)
   \<and> run_process (scripted_env install_streamed)
        [''adb'', ''-s'', ''emulator-5554'', ''install'', ''-r'', ''app.apk''] 300 (world new_manager)
        = (Completed ''Performing Streamed Install'' [] 0, ())
   \<and> fst (install_apk (scripted_env install_streamed) ''emulator-5554'' ''app.apk'' new_manager)
        = Inr (sublist ''success'' (lower ''Performing Streamed Install''))"
  using install_apk_exit_zero
          [of new_manager "''emulator-5554''" "''app.apk''" "scripted_env install_streamed"
              "''Performing Streamed Install''" "[]" "()"]
  by (simp add: new_manager_def scripted_env_def install_streamed_def)

text \<open>
  C2 as stated fails: an install run that exits with code 0 and prints neither marker is not
  a success.
\<close>

theorem install_success_by_default_counterexample:
  "fst (install_apk (scripted_env install_streamed) ''emulator-5554'' ''app.apk'' new_manager)
     = Inr False
   \<and> \<not> sublist ''success'' (lower ''Performing Streamed Install'')
   \<and> \<not> sublist ''failure'' (lower ''Performing Streamed Install'')"
  by code_simp

section \<open>Connect results\<close>

text \<open>
  What \<open>connect_device\<close> does with the outcome of its one connect command, branch by
  branch. After exit code 0 the lower-cased output is searched, in this order, for
  \<open>connected to\<close> or \<open>already connected\<close>, then for \<open> connection refused\<close>, then for
  \<open> unable to connect\<close> or \<open>failed to connect\<close>; the second and the third of these five
  markers begin with a space.
\<close>

lemma connect_device_branches:
  assumes "adb_available st" and "address \<noteq> []"
    and "run_process E [''adb'', ''connect'', address] 15 (world st) = (outcome, w)"
  shows "fst (connect_device E address st) =
           Inr (case outcome of
                  Completed out err rc \<Rightarrow>
                    rc = 0 \<and>
                    (sublist ''connected to'' (lower out) \<or> sublist ''already connected'' (lower out)
                     \<or> (\<not> sublist '' connection refused'' (lower out)
                         \<and> \<not> sublist '' unable to connect'' (lower out)
                         \<and> \<not> sublist ''failed to connect'' (lower out)))
                | _ \<Rightarrow> False)
     \<and> status_log (snd (connect_device E address st)) =
           status_log st
           @ [(''Attempting to connect to '' @ address @ ''...'', ''info'')]
           @ outcome_reports 15 outcome
           @ (case outcome of
                Completed out err rc \<Rightarrow>
                  (if rc \<noteq> 0 then []
                   else if sublist ''connected to'' (lower out)
                           \<or> sublist ''already connected'' (lower out) then []
                   else if sublist '' connection refused'' (lower out) then
                     [(''Connection failed for '' @ address
                         @ '': Connection refused. Is ADB over TCP enabled on the device?'',
                       ''error'')]
                   else if sublist '' unable to connect'' (lower out)
                           \<or> sublist ''failed to connect'' (lower out) then
                     [(''Connection failed for '' @ address @ '': '' @ strip out, ''error'')]
                   else
                     [(''Connect command successful for '' @ address
                         @ '', but output was unexpected: '' @ strip out, ''warning'')])
              | _ \<Rightarrow> [])"
  using assms(1,2)
  apply (cases outcome)
  apply (simp_all add: connect_device_def run_after_status [OF assms(1) assms(3)]
           outcome_result_def)
  apply (simp_all add: update_status_def)
  done

text \<open>
  C8 fails on the code. A connect command that exits with code 0 and prints
  \<open>unable to connect to 192.168.1.10:5555\<close> has an output that contains \<open>unable to connect\<close>
  and neither success marker, and the claim makes it a failure. \<open>connect_device\<close> returns
  \<open>True\<close> with the unexpected-output warning: the marker it searches for begins with a
  space, which the output, starting with the marker's words, does not have.
\<close>

theorem connect_unable_returns_success:
  "sublist ''unable to connect'' (lower ''unable to connect to 192.168.1.10:5555'')
   \<and> \<not> sublist ''connected to'' (lower ''unable to connect to 192.168.1.10:5555'')
   \<and> \<not> sublist ''already connected'' (lower ''unable to connect to 192.168.1.10:5555'')
   \<and> fst (connect_device (scripted_env connect_unable) ''192.168.1.10:5555'' new_manager)
       = Inr True
   \<and> status_log (snd (connect_device (scripted_env connect_unable) ''192.168.1.10:5555''
                          new_manager))
       = [(''Attempting to connect to 192.168.1.10:5555...'', ''info''),
          (''Connect command successful for 192.168.1.10:5555, but output was unexpected: unable to connect to 192.168.1.10:5555'',
           ''warning'')]"
  by code_simp

text \<open>
  The same for a refusal at the start of the output: \<open>Connection refused\<close> contains
  \<open>connection refused\<close> when lower-cased, yet the call succeeds with the warning.
\<close>

lemma connect_refused_at_start_returns_success:
  "sublist ''connection refused'' (lower ''Connection refused'')
   \<and> fst (connect_device (scripted_env connect_refused) ''192.168.1.10:5555'' new_manager)
       = Inr True
   \<and> status_log (snd (connect_device (scripted_env connect_refused) ''192.168.1.10:5555''
                          new_manager))
       = [(''Attempting to connect to 192.168.1.10:5555...'', ''info''),
          (''Connect command successful for 192.168.1.10:5555, but output was unexpected: Connection refused'',
           ''warning'')]"
  by code_simp

section \<open>The battery parser\<close>

lemma split_on_not_Nil: "split_on sep s \<noteq> []"
  by (induction s) (auto split: list.splits)

lemma hd_split_on: "hd (split_on sep s) = takeWhile (\<lambda>c. c \<noteq> sep) s"
  using split_on_not_Nil [of sep]
  by (induction s) (auto split: list.splits)

lemma split_on_Cons_other:
  "c \<noteq> sep \<Longrightarrow> split_on sep (c # cs) = (c # hd (split_on sep cs)) # tl (split_on sep cs)"
  using split_on_not_Nil [of sep cs] by (cases "split_on sep cs") simp_all

lemma level_field:
  assumes "prefix ''level:'' line"
  shows "item (split_on CHR '':'' line) (Suc 0) = Inr (takeWhile (\<lambda>c. c \<noteq> CHR '':'') (drop 6 line))"
proof -
  from assms obtain rest where line: "line = ''level:'' @ rest"
    by (auto simp: prefix_def)
  have "split_on CHR '':'' line = ''level'' # split_on CHR '':'' rest"
    unfolding line by (simp add: split_on_Cons_other)
  then show ?thesis
    using split_on_not_Nil [of "CHR '':''" rest] hd_split_on [of "CHR '':''" rest]
    by (cases "split_on CHR '':'' rest") (simp_all add: item_def line)
qed

lemma parse_battery_find:
  "parse_battery lines st =
     (case find (prefix ''level:'') (map strip lines) of
        None \<Rightarrow> None
      | Some line \<Rightarrow> Some (strip (takeWhile (\<lambda>c. c \<noteq> CHR '':'') (drop 6 line)) @ ''%''),
      st)"
  by (induction lines) (simp_all add: level_field Let_def)

text \<open>
  C9, as amended. For every battery dump text, the battery level comes from the first line
  that, stripped of whitespace, begins with \<open>level:\<close>: the text between that prefix and the
  next colon (or the end of the line, when there is none), stripped of whitespace and followed
  by \<open>%\<close>. Later \<open>level:\<close> lines are ignored. When no line begins with \<open>level:\<close> the field keeps
  its sentinel \<open>N/A\<close>. In either case the manager is unchanged: nothing is reported, and the
  lookup of the field cannot raise.
\<close>

theorem battery_level_from_dump_first_level_line:
  "battery_level_from_dump dump st =
     (case find (prefix ''level:'') (map strip (splitlines dump)) of
        None \<Rightarrow> ''N/A''
      | Some line \<Rightarrow> strip (takeWhile (\<lambda>c. c \<noteq> CHR '':'') (drop 6 line)) @ ''%'',
      st)"
  by (simp add: battery_level_from_dump_def parse_battery_find split: option.splits)

text \<open>
  C9 as stated fails when the suffix has a colon: for the line \<open>level: 1:2\<close> the suffix with a
  trailing \<open>%\<close> is \<open>1:2%\<close>, and the parser yields \<open>1%\<close>.
\<close>

theorem battery_suffix_counterexample:
  "find (prefix ''level:'') (map strip (splitlines ''level: 1:2'')) = Some ''level: 1:2''
   \<and> strip (drop 6 ''level: 1:2'') @ ''%'' = ''1:2%''
   \<and> fst (battery_level_from_dump ''level: 1:2'' new_manager) = ''1%''"
  by code_simp

text \<open>The example of the specification: the first \<open>level:\<close> line wins.\<close>

lemma battery_example:
  "fst (battery_level_from_dump (''Current Battery Service state:'' @ [CHR 0x0A] @ ''  level: 87''
          @ [CHR 0x0A] @ ''  scale: 100'' @ [CHR 0x0A] @ ''  level: 5'' @ [CHR 0x0A]) new_manager) = ''87%''"
  by code_simp

section \<open>The device list parser\<close>

lemma split_ws_blank: "dropWhile is_space s = [] \<Longrightarrow> split_ws k s = []"
  by (subst split_ws.simps) (simp add: Let_def)

lemma split_ws_last: "dropWhile is_space s \<noteq> [] \<Longrightarrow> split_ws 0 s = [dropWhile is_space s]"
  by (subst split_ws.simps) (simp add: Let_def)

lemma split_ws_field:
  "dropWhile is_space s \<noteq> [] \<Longrightarrow> 0 < k \<Longrightarrow>
     split_ws k s =
       takeWhile (\<lambda>c. \<not> is_space c) (dropWhile is_space s)
       # split_ws (k - 1) (dropWhile (\<lambda>c. \<not> is_space c) (dropWhile is_space s))"
  by (subst split_ws.simps) (simp add: Let_def)

lemma split_ws_length: "length (split_ws k s) \<le> k + 1"
proof (induction k s rule: split_ws.induct)
  case (1 k s)
  consider "dropWhile is_space s = []" | "dropWhile is_space s \<noteq> []" "k = 0"
    | "dropWhile is_space s \<noteq> []" "0 < k"
    by blast
  then show ?case
  proof cases
    case 1
    then show ?thesis by (simp add: split_ws_blank)
  next
    case 2
    then show ?thesis by (simp add: split_ws_last)
  next
    case 3
    then have "length (split_ws (k - 1) (dropWhile (\<lambda>c. \<not> is_space c) (dropWhile is_space s)))
                 \<le> k - 1 + 1"
      using "1.IH" [OF refl] by simp
    with 3 show ?thesis by (simp add: split_ws_field)
  qed
qed

lemma split_ws_field_not_empty: "t \<in> set (split_ws k s) \<Longrightarrow> t \<noteq> []"
proof (induction k s rule: split_ws.induct)
  case (1 k s)
  let ?u = "dropWhile is_space s"
  consider "?u = []" | "?u \<noteq> []" "k = 0" | "?u \<noteq> []" "0 < k"
    by blast
  then show ?case
  proof cases
    case 1
    with "1.prems" show ?thesis by (simp add: split_ws_blank)
  next
    case 2
    with "1.prems" show ?thesis by (simp add: split_ws_last)
  next
    case 3
    then have hd: "\<not> is_space (hd ?u)" by (simp add: hd_dropWhile)
    from "1.prems" 3
    have "t = takeWhile (\<lambda>c. \<not> is_space c) ?u
          \<or> t \<in> set (split_ws (k - 1) (dropWhile (\<lambda>c. \<not> is_space c) ?u))"
      by (simp add: split_ws_field)
    then show ?thesis
    proof
      assume t: "t = takeWhile (\<lambda>c. \<not> is_space c) ?u"
      from 3(1) hd show ?thesis unfolding t by (cases ?u) simp_all
    next
      assume "t \<in> set (split_ws (k - 1) (dropWhile (\<lambda>c. \<not> is_space c) ?u))"
      then show ?thesis using "1.IH" [OF refl] 3 by simp
    qed
  qed
qed

lemma parse_device_lines_char:
  "parse_device_lines lines devices st =
     (devices @ map device_of_line
                  (filter well_formed_line (filter (\<lambda>l. l \<noteq> []) (map strip lines))),
      st\<lparr>status_log := status_log st
           @ map (\<lambda>l. (parse_warning l, ''warning''))
               (filter (\<lambda>l. \<not> well_formed_line l) (filter (\<lambda>l. l \<noteq> []) (map strip lines)))\<rparr>)"
proof (induction lines arbitrary: devices st)
  case Nil
  show ?case by simp
next
  case (Cons l ls)
  show ?case
    by (simp add: Cons.IH Let_def well_formed_line_def device_of_line_def update_status_def)
qed

lemma serial_of_well_formed:
  assumes "well_formed_line l"
  shows "device_serial (device_of_line l) \<noteq> []"
proof -
  from assms have "0 < length (split_ws 2 l)" unfolding well_formed_line_def by linarith
  then have "split_ws 2 l ! 0 \<in> set (split_ws 2 l)" by (rule nth_mem)
  then have "split_ws 2 l ! 0 \<noteq> []" by (rule split_ws_field_not_empty)
  then show ?thesis by (simp add: device_of_line_def Let_def)
qed

lemma device_lines_first_line:
  "device_lines stdout = first_line_header_dropped (split_on CHR 0x0A (strip stdout))"
  using split_on_not_Nil [of "CHR 0x0A" "strip stdout"]
  by (cases "split_on CHR 0x0A (strip stdout)")
     (simp_all add: device_lines_def first_line_header_dropped_def header_text_def Let_def)

lemma discard_header_absent:
  "list_all (\<lambda>l. \<not> sublist header_text l) ls \<Longrightarrow> discard_header ls = ls"
  by (induction ls) simp_all

lemma data_lines_spec:
  assumes "header_not_below_first stdout"
  shows "data_lines stdout = spec_data_lines stdout"
proof (cases "split_on CHR 0x0A (strip stdout)")
  case Nil
  then show ?thesis
    by (simp add: data_lines_def spec_data_lines_def first_line_header_dropped_def)
next
  case (Cons l ls)
  with assms have "discard_header ls = ls"
    by (simp add: header_not_below_first_def discard_header_absent)
  with Cons show ?thesis
    by (simp add: data_lines_def spec_data_lines_def first_line_header_dropped_def)
qed

text \<open>
  C5, as amended. For every listing text, the parser cuts the stripped text into lines,
  discards the first line when it holds the header text (a header further down is kept as a
  data line), and skips blank lines; what remains are the data lines. Each data line splits
  into at most three whitespace-delimited fields. The device records are those of the data
  lines with at least two fields, in order; every other data line is reported as a parse
  warning and dropped, and the parse goes on. Every record has a non-empty serial. When no
  line after the first holds the header text, the data lines are those of the specification
  (the header discarded if present), and if all of them are well-formed there are exactly as
  many records as data lines.
\<close>

theorem parse_devices_records:
  "fst (parse_devices stdout st) = map device_of_line (filter well_formed_line (data_lines stdout))
   \<and> status_log (snd (parse_devices stdout st)) =
       status_log st
       @ map (\<lambda>l. (parse_warning l, ''warning''))
           (filter (\<lambda>l. \<not> well_formed_line l) (data_lines stdout))
       @ (if filter well_formed_line (data_lines stdout) = [] \<and> strip stdout = []
          then [(''No devices found.'', ''info'')] else [])
   \<and> (\<forall>l \<in> set (data_lines stdout). length (split_ws 2 l) \<le> 3)
   \<and> (\<forall>d \<in> set (fst (parse_devices stdout st)). device_serial d \<noteq> [])
   \<and> ((\<forall>l \<in> set (data_lines stdout). well_formed_line l) \<longrightarrow>
        length (fst (parse_devices stdout st)) = length (data_lines stdout))
   \<and> (header_not_below_first stdout \<longrightarrow> data_lines stdout = spec_data_lines stdout)
   \<and> (header_not_below_first stdout \<and> (\<forall>l \<in> set (spec_data_lines stdout). well_formed_line l)
        \<longrightarrow> length (fst (parse_devices stdout st)) = length (spec_data_lines stdout))"
proof -
  have lines: "filter (\<lambda>l. l \<noteq> []) (map strip (device_lines stdout)) = data_lines stdout"
    by (simp add: data_lines_def device_lines_first_line)
  have devs: "fst (parse_devices stdout st)
                = map device_of_line (filter well_formed_line (data_lines stdout))"
    by (simp add: parse_devices_def parse_device_lines_char lines)
  have log: "status_log (snd (parse_devices stdout st)) =
       status_log st
       @ map (\<lambda>l. (parse_warning l, ''warning''))
           (filter (\<lambda>l. \<not> well_formed_line l) (data_lines stdout))
       @ (if filter well_formed_line (data_lines stdout) = [] \<and> strip stdout = []
          then [(''No devices found.'', ''info'')] else [])"
    by (simp add: parse_devices_def parse_device_lines_char lines update_status_def)
  have three: "\<forall>l \<in> set (data_lines stdout). length (split_ws 2 l) \<le> 3"
    using split_ws_length [of 2] by simp
  have serial: "\<forall>d \<in> set (fst (parse_devices stdout st)). device_serial d \<noteq> []"
    unfolding devs using serial_of_well_formed by auto
  have count: "(\<forall>l \<in> set (data_lines stdout). well_formed_line l) \<longrightarrow>
        length (fst (parse_devices stdout st)) = length (data_lines stdout)"
    unfolding devs by (simp add: filter_id_conv)
  have spec: "header_not_below_first stdout \<longrightarrow> data_lines stdout = spec_data_lines stdout"
    using data_lines_spec by blast
  have spec_count:
    "header_not_below_first stdout \<and> (\<forall>l \<in> set (spec_data_lines stdout). well_formed_line l)
       \<longrightarrow> length (fst (parse_devices stdout st)) = length (spec_data_lines stdout)"
    using count spec by auto
  from devs log three serial count spec spec_count show ?thesis by blast
qed

lemma example_data_lines:
  "data_lines example_listing
     = [''emulator-5554'' @ [CHR 0x09] @ ''device'' @ [CHR 0x09]
          @ ''product:sdk model:sdk device:generic'']"
  by code_simp

lemma example_header_first: "header_not_below_first example_listing"
  by code_simp

lemma example_well_formed:
  "well_formed_line (''emulator-5554'' @ [CHR 0x09] @ ''device'' @ [CHR 0x09]
          @ ''product:sdk model:sdk device:generic'')"
  by code_simp

lemma example_device:
  "device_of_line (''emulator-5554'' @ [CHR 0x09] @ ''device'' @ [CHR 0x09]
          @ ''product:sdk model:sdk device:generic'')
     = \<lparr>device_serial = ''emulator-5554'', device_state = ''device'',
        device_description = ''product:sdk model:sdk device:generic''\<rparr>"
  by code_simp

theorem parse_devices_records_witness:
  "header_not_below_first example_listing
   \<and> list_all well_formed_line (data_lines example_listing)
   \<and> list_all well_formed_line (spec_data_lines example_listing)
   \<and> length (spec_data_lines example_listing) = 1
   \<and> fst (parse_devices example_listing new_manager)
       = [\<lparr>device_serial = ''emulator-5554'', device_state = ''device'',
           device_description = ''product:sdk model:sdk device:generic''\<rparr>]
   \<and> length (fst (parse_devices example_listing new_manager)) = 1
   \<and> list_all (\<lambda>d. device_serial d \<noteq> []) (fst (parse_devices example_listing new_manager))"
proof -
  have sd: "spec_data_lines example_listing = data_lines example_listing"
    by code_simp
  have wf: "\<forall>l \<in> set (spec_data_lines example_listing). well_formed_line l"
    unfolding sd example_data_lines using example_well_formed by simp
  from parse_devices_records [of example_listing new_manager] example_header_first wf
  have n: "length (fst (parse_devices example_listing new_manager))
             = length (spec_data_lines example_listing)"
    and d: "fst (parse_devices example_listing new_manager)
             = map device_of_line (filter well_formed_line (data_lines example_listing))"
    by blast+
  show ?thesis
    using n d example_header_first example_well_formed example_device
    unfolding sd example_data_lines
    by simp
qed

text \<open>
  C5 as stated fails when the header is not the first line. In the listing below the header
  line is present; with it discarded there are two data lines, both well-formed. The parser
  keeps the header line and yields three records, one of them with the serial \<open>List\<close>.
\<close>

theorem header_below_first_counterexample:
  "list_ex (sublist header_text) (split_on CHR 0x0A (strip banner_listing))
   \<and> spec_data_lines banner_listing
       = [''* daemon started successfully'', ''emulator-5554'' @ [CHR 0x09] @ ''device'']
   \<and> list_all well_formed_line (spec_data_lines banner_listing)
   \<and> length (spec_data_lines banner_listing) = 2
   \<and> map device_serial (fst (parse_devices banner_listing new_manager))
       = [''*'', ''List'', ''emulator-5554'']
   \<and> length (fst (parse_devices banner_listing new_manager)) = 3"
  by code_simp

section \<open>Package details\<close>

lemma after_equals_found:
  assumes "CHR ''='' \<in> set line"
  shows "after_equals line = Inr (tl (dropWhile (\<lambda>c. c \<noteq> CHR ''='') line))"
proof -
  from assms have "dropWhile (\<lambda>c. c \<noteq> CHR ''='') line \<noteq> []"
    by (simp add: dropWhile_eq_Nil_conv)
  then show ?thesis
    by (cases "dropWhile (\<lambda>c. c \<noteq> CHR ''='') line")
       (simp_all add: after_equals_def split_once_def item_def)
qed

lemma prefix_has_last:
  assumes "prefix (p @ [c]) line"
  shows "c \<in> set line"
  using assms by (auto simp: prefix_def)

lemma item_split_once_0: "item (split_once sep v) 0 = Inr (takeWhile (\<lambda>c. c \<noteq> sep) v)"
proof (cases "dropWhile (\<lambda>c. c \<noteq> sep) v")
  case Nil
  have t: "takeWhile (\<lambda>c. c \<noteq> sep) v = v"
    using Nil by (simp add: dropWhile_eq_Nil_conv)
  have s: "split_once sep v = [v]"
    by (simp only: split_once_def Nil list.case)
  show ?thesis unfolding s t by (simp add: item_def)
next
  case (Cons a rest)
  then show ?thesis by (simp add: split_once_def item_def)
qed

lemma keyed_line_has_equals:
  "prefix ''versionName='' line \<Longrightarrow> CHR ''='' \<in> set line"
  "prefix ''versionCode='' line \<Longrightarrow> CHR ''='' \<in> set line"
  "prefix ''installerPackageName='' line \<Longrightarrow> CHR ''='' \<in> set line"
  "prefix ''firstInstallTime='' line \<Longrightarrow> CHR ''='' \<in> set line"
  "prefix ''lastUpdateTime='' line \<Longrightarrow> CHR ''='' \<in> set line"
  "prefix ''userId='' line \<Longrightarrow> CHR ''='' \<in> set line"
  by (auto simp: prefix_def)

lemma parse_detail_lines_total: "\<exists>d. parse_detail_lines ls reading_perms details = Inr d"
proof (induction ls arbitrary: reading_perms details)
  case Nil
  show ?case by simp
next
  case (Cons l ls)
  show ?case
    by (simp add: Let_def keyed_line_has_equals after_equals_found item_split_once_0 Cons.IH)
qed

lemma parse_detail_lines_unrecognized:
  "list_all (\<lambda>l. \<not> recognized_line (strip l)) ls \<Longrightarrow>
     parse_detail_lines ls False details = Inr details"
  by (induction ls) (simp_all add: Let_def recognized_line_def recognized_prefixes_def)


text \<open>
  C10, as amended. With the tool available, a serial and a package name,
  \<open>get_package_details\<close> never returns \<open>None\<close> and never raises. When the dumpsys run fails
  (it raised, timed out, exited with a non-zero code or printed nothing) the result is the
  defaulted record: \<open>package_name\<close> is the requested name, every other scalar field is
  \<open>Unknown\<close> and the permissions list is empty. A run that exits with code 0 and whose dump has
  no line with a recognised prefix gives the same record.
\<close>

theorem get_package_details_never_null:
  assumes "adb_available st" and "serial \<noteq> []" and "package_name \<noteq> []"
    and "run_process E [''adb'', ''-s'', serial, ''shell'', ''dumpsys'', ''package'', package_name]
           10 (world st) = (outcome, w)"
  shows "(\<exists>d. fst (get_package_details E serial package_name st) = Inr (Some d))
     \<and> (dump_failed outcome
          \<or> (case outcome of
                Completed out err rc \<Rightarrow> rc = 0 \<and> unrecognized_dump out
              | _ \<Rightarrow> False)
         \<longrightarrow> fst (get_package_details E serial package_name st)
               = Inr (Some \<lparr>details_package_name = package_name,
                             details_version_name = ''Unknown'',
                             details_version_code = ''Unknown'',
                             details_installer = ''Unknown'',
                             details_first_install_time = ''Unknown'',
                             details_last_update_time = ''Unknown'',
                             details_uid = ''Unknown'',
                             details_permissions = []\<rparr>))"
proof -
  let ?cmd = "[''adb'', ''-s'', serial, ''shell'', ''dumpsys'', ''package'', package_name]"
  let ?r = "fst (get_package_details E serial package_name st)"
  have unfold: "?r =
      (case ok_output (outcome_result outcome) of
         None \<Rightarrow> Inr (Some (initial_details package_name))
       | Some stdout \<Rightarrow>
           (case parse_detail_lines (splitlines stdout) False (initial_details package_name) of
              Inl e \<Rightarrow> Inl e
            | Inr d \<Rightarrow> Inr (Some d)))"
    using assms(1-3)
    by (simp add: get_package_details_def run_after_status [OF assms(1) assms(4)]
          split: option.splits sum.splits)
  have total: "\<exists>d. ?r = Inr (Some d)"
  proof (cases "ok_output (outcome_result outcome)")
    case None
    then show ?thesis by (simp add: unfold)
  next
    case (Some stdout)
    obtain d where "parse_detail_lines (splitlines stdout) False (initial_details package_name)
                      = Inr d"
      using parse_detail_lines_total by blast
    with Some show ?thesis by (simp add: unfold)
  qed
  have failed: "?r = Inr (Some (initial_details package_name))" if "dump_failed outcome"
  proof -
    from that have "ok_output (outcome_result outcome) = None"
      by (cases outcome) (auto simp: dump_failed_def ok_output_def outcome_result_def)
    then show ?thesis by (simp add: unfold)
  qed
  have unrec: "?r = Inr (Some (initial_details package_name))"
    if "case outcome of Completed out err rc \<Rightarrow> rc = 0 \<and> unrecognized_dump out | _ \<Rightarrow> False"
  proof -
    from that obtain out err where o: "outcome = Completed out err 0" and u: "unrecognized_dump out"
      by (cases outcome) auto
    from u have p: "parse_detail_lines (splitlines out) False (initial_details package_name)
                      = Inr (initial_details package_name)"
      unfolding unrecognized_dump_def by (rule parse_detail_lines_unrecognized)
    show ?thesis
      by (cases "out = []") (simp_all add: unfold o ok_output_def outcome_result_def p)
  qed
  from total failed unrec show ?thesis
    by (auto simp: initial_details_def)
qed

theorem get_package_details_never_null_witness:
  "adb_available new_manager \<and> ''emulator-5554'' \<noteq> [] \<and> ''com.example.app'' \<noteq> []
   \<and> dump_failed (silent [''adb'', ''-s'', ''emulator-5554'', ''shell'', ''dumpsys'', ''package'',
                            ''com.example.app''])
   \<and> fst (get_package_details (scripted_env silent) ''emulator-5554'' ''com.example.app''
             new_manager)
       = Inr (Some \<lparr>details_package_name = ''com.example.app'',
                     details_version_name = ''Unknown'',
                     details_version_code = ''Unknown'',
                     details_installer = ''Unknown'',
                     details_first_install_time = ''Unknown'',
                     details_last_update_time = ''Unknown'',
                     details_uid = ''Unknown'',
                     details_permissions = []\<rparr>)"
  using get_package_details_never_null
          [of new_manager "''emulator-5554''" "''com.example.app''" "scripted_env silent"
              "Completed [] [] 0" "()"]
  by (simp add: new_manager_def scripted_env_def silent_def dump_failed_def)

text \<open>
  C10 as stated fails in one field: in the record returned after a failed run, the scalar
  field \<open>package_name\<close> holds the requested name, not \<open>Unknown\<close>.
\<close>

theorem package_name_field_counterexample:
  "fst (get_package_details (scripted_env silent) ''emulator-5554'' ''com.example.app''
          new_manager)
     = Inr (Some (initial_details ''com.example.app''))
   \<and> details_package_name (initial_details ''com.example.app'') = ''com.example.app''
   \<and> ''com.example.app'' \<noteq> ''Unknown''"
  by code_simp

text \<open>A dump without recognised lines and a failed run give the same record.\<close>

lemma unrecognized_dump_example:
  "fst (get_package_details (scripted_env dump_without_details) ''emulator-5554''
          ''com.example.app'' new_manager)
     = fst (get_package_details (scripted_env silent) ''emulator-5554'' ''com.example.app''
              new_manager)"
  by code_simp

section \<open>Device information: the failure policy\<close>

lemma strip_Nil: "strip [] = []" "strip_quotes [] = []"
  by (simp_all add: strip_def strip_quotes_def strip_chars_def rstrip_chars_def lstrip_chars_def)

lemma prop_value_outcome:
  "prop_value (outcome_result outcome) =
     (if probe_failed outcome then None else Some (probe_value outcome))"
  by (cases outcome)
     (auto simp: prop_value_def ok_output_def outcome_result_def probe_failed_def
        probe_value_def Let_def strip_Nil)

lemma getprop_run:
  assumes "adb_available st"
    and "run_process E (getprop_command serial p) 5 (world st) = (outcome, w)"
  shows "run_adb_command E (getprop_command serial p) 5 st =
           (outcome_result outcome,
            st\<lparr>world := w, invocations := invocations st @ [getprop_command serial p],
               status_log := status_log st @ outcome_reports 5 outcome\<rparr>)"
  using run_adb_command_outcome [of st E "[''-s'', serial, ''shell'', ''getprop'', p]" 5 outcome w]
    assms
  by (simp add: getprop_command_def)

text \<open>
  C7. With the tool available and a non-empty serial, \<open>get_device_info\<close> returns \<open>None\<close>
  if and only if the model probe and the Android-version probe both failed. When at least one
  of them succeeded it returns a record with the serial, the model and the version (\<open>N/A\<close>
  for the one that failed), whatever the battery probe and the candidate-property probes do:
  the environment is arbitrary beyond the outcomes of the first two runs.
\<close>

theorem get_device_info_null_iff:
  assumes "adb_available st" and "serial \<noteq> []"
    and "run_process E (getprop_command serial ''ro.product.model'') 5 (world st) = (o1, w1)"
    and "run_process E (getprop_command serial ''ro.build.version.release'') 5 w1 = (o2, w2)"
  shows "(fst (get_device_info E serial st) = None \<longleftrightarrow> probe_failed o1 \<and> probe_failed o2)
     \<and> (\<not> (probe_failed o1 \<and> probe_failed o2) \<longrightarrow>
          (\<exists>info. fst (get_device_info E serial st) = Some info
             \<and> info_serial info = serial
             \<and> info_model info = (if probe_failed o1 then ''N/A'' else probe_value o1)
             \<and> info_version info = (if probe_failed o2 then ''N/A'' else probe_value o2)))"
proof -
  let ?st0 = "update_status (''Fetching info for device '' @ serial @ ''...'') ''info'' st"
  have a0: "adb_available ?st0" and w0: "world ?st0 = world st"
    using assms(1) by (simp_all add: update_status_def)
  have m: "fetch_model E serial ?st0 =
             (if probe_failed o1 then None else Some (probe_value o1),
              ?st0\<lparr>world := w1,
                   invocations := invocations ?st0 @ [getprop_command serial ''ro.product.model''],
                   status_log := status_log ?st0 @ outcome_reports 5 o1\<rparr>)"
    (is "_ = (_, ?st1)")
    using getprop_run [OF a0] assms(3) w0
    by (simp add: fetch_model_def prop_value_outcome)
  have a1: "adb_available ?st1" and w1: "world ?st1 = w1"
    using a0 by simp_all
  have v: "fetch_version E serial ?st1 =
             (if probe_failed o2 then None else Some (probe_value o2),
              ?st1\<lparr>world := w2,
                   invocations := invocations ?st1
                     @ [getprop_command serial ''ro.build.version.release''],
                   status_log := status_log ?st1 @ outcome_reports 5 o2\<rparr>)"
    using getprop_run [OF a1] assms(4) w1
    by (simp add: fetch_version_def prop_value_outcome)
  show ?thesis
    using assms(1,2)
    apply (simp only: get_device_info_def Let_def m v prod.case if_False simp_thms)
    apply (simp split: prod.splits)
    done
qed

lemma only_version_probes:
  "probe_failed Timeout_expired"
  "\<not> probe_failed (Completed (''14'' @ [CHR 0x0A]) [] 0)"
  "probe_value (Completed (''14'' @ [CHR 0x0A]) [] 0) = ''14''"
  by code_simp+

theorem get_device_info_null_iff_witness:
  "adb_available new_manager \<and> ''emulator-5554'' \<noteq> []
   \<and> run_process (scripted_env only_version)
        (getprop_command ''emulator-5554'' ''ro.product.model'') 5 (world new_manager)
       = (Timeout_expired, ())
   \<and> run_process (scripted_env only_version)
        (getprop_command ''emulator-5554'' ''ro.build.version.release'') 5 ()
       = (Completed (''14'' @ [CHR 0x0A]) [] 0, ())
   \<and> \<not> (probe_failed Timeout_expired \<and> probe_failed (Completed (''14'' @ [CHR 0x0A]) [] 0))
   \<and> fst (get_device_info (scripted_env only_version) ''emulator-5554'' new_manager) \<noteq> None
   \<and> map_option info_model
        (fst (get_device_info (scripted_env only_version) ''emulator-5554'' new_manager))
       = Some ''N/A''
   \<and> map_option info_version
        (fst (get_device_info (scripted_env only_version) ''emulator-5554'' new_manager))
       = Some ''14''"
proof -
  have r1: "run_process (scripted_env only_version)
        (getprop_command ''emulator-5554'' ''ro.product.model'') 5 (world new_manager)
       = (Timeout_expired, ())"
    by code_simp
  have r2: "run_process (scripted_env only_version)
        (getprop_command ''emulator-5554'' ''ro.build.version.release'') 5 ()
       = (Completed (''14'' @ [CHR 0x0A]) [] 0, ())"
    by code_simp
  have a: "adb_available new_manager" by (simp add: new_manager_def)
  have s: "''emulator-5554'' \<noteq> []" by simp
  from get_device_info_null_iff [OF a s r1 r2] only_version_probes r1 r2 a
  show ?thesis by auto
qed

text \<open>When every probe comes back empty the result is \<open>None\<close>.\<close>

lemma get_device_info_all_failed_example:
  "fst (get_device_info (scripted_env silent) ''emulator-5554'' new_manager) = None"
  by code_simp

section \<open>Device information: the display name\<close>

lemma first_match_Nil: "first_match m [] = None"
  by (simp add: first_match_def)

lemma first_match_Cons:
  "first_match m (c # cs) = (if qualifies m c then snd c else first_match m cs)"
  by (simp add: first_match_def)

lemma fetch_candidates_best:
  "fst (snd (fetch_candidates E serial names fetched best st)) =
     (case best of
        Some b \<Rightarrow> Some b
      | None \<Rightarrow> first_match (fetched ''ro.product.model'') (candidate_values E serial names st))"
proof (induction names arbitrary: fetched best st)
  case Nil
  show ?case by (simp add: first_match_Nil split: option.splits)
next
  case (Cons p ps)
  show ?case
  proof (cases "p \<in> set [''ro.product.model'', ''ro.build.version.release'']")
    case True
    then show ?thesis by (cases best) (simp_all add: Cons.IH)
  next
    case False
    then have pm: "p \<noteq> ''ro.product.model''" "''ro.product.model'' \<noteq> p" by auto
    obtain r st1 where run: "run_adb_command E (getprop_command serial p) 5 st = (r, st1)"
      by (cases "run_adb_command E (getprop_command serial p) 5 st")
    show ?thesis
    proof (cases "prop_value r")
      case None
      with False run show ?thesis
        by (cases best) (simp_all add: Cons.IH first_match_Cons qualifies_def)
    next
      case (Some v)
      from False run Some show ?thesis
        by (cases best) (simp_all add: Cons.IH pm first_match_Cons qualifies_def)
    qed
  qed
qed


lemma prop_value_not_empty: "prop_value r \<noteq> Some []" "Some [] \<noteq> prop_value r"
  by (auto simp: prop_value_def Let_def split: option.splits if_splits)

lemma candidate_values_not_empty:
  "(p, Some v) \<in> set (candidate_values E serial names st) \<Longrightarrow> v \<noteq> []"
proof (induction names arbitrary: st)
  case Nil
  then show ?case by simp
next
  case (Cons n ns)
  then show ?case
    by (cases "v = []") (auto simp: Let_def prop_value_not_empty split: if_splits prod.splits)
qed

lemma first_match_not_empty:
  assumes "first_match m (candidate_values E serial names st) = Some v"
  shows "v \<noteq> []"
proof -
  from assms obtain c where "find (qualifies m) (candidate_values E serial names st) = Some c"
    and "snd c = Some v"
    by (auto simp: first_match_def split: option.splits)
  then have "(fst c, Some v) \<in> set (candidate_values E serial names st)"
    by (metis find_Some_iff nth_mem prod.collapse)
  then show ?thesis by (rule candidate_values_not_empty)
qed

text \<open>
  C6, as amended. Let the model, version and battery probes of \<open>get_device_info\<close> have
  run, at least one of the first two with success. The candidate chosen is the first one in
  the fixed priority order whose probe yields a non-empty value that differs from the fetched
  model value or whose key name contains \<open>marketname\<close>; later candidates are not considered.
  The chosen value is the display name unless it is \<open>N/A\<close> or \<open>Error\<close>. In that case, and
  when no candidate qualifies, the display name is the fetched model, or the serial when the
  model probe failed or the model value is itself \<open>N/A\<close> or \<open>Error\<close>.
\<close>

theorem display_name_first_match:
  assumes "adb_available st" and "serial \<noteq> []"
    and "fetch_model E serial
           (update_status (''Fetching info for device '' @ serial @ ''...'') ''info'' st)
         = (model_fetched, st1)"
    and "fetch_version E serial st1 = (version_fetched, st2)"
    and "fetch_battery E serial st2 = (battery_level, st3)"
    and "model_fetched \<noteq> None \<or> version_fetched \<noteq> None"
  shows "map_option info_display_name (fst (get_device_info E serial st)) =
           Some (let fallback = (case model_fetched of
                                   None \<Rightarrow> serial
                                 | Some m \<Rightarrow> if m \<in> set [''N/A'', ''Error''] then serial else m)
                 in case first_match model_fetched
                           (candidate_values E serial prop_names_to_try st3) of
                      None \<Rightarrow> fallback
                    | Some v \<Rightarrow> if v \<in> set [''N/A'', ''Error''] then fallback else v)"
proof -
  let ?fetched = "case model_fetched of
                    Some v \<Rightarrow> [''ro.product.model'' \<mapsto> v] | None \<Rightarrow> Map.empty"
  let ?model = "case model_fetched of Some v \<Rightarrow> v | None \<Rightarrow> ''N/A''"
  obtain fv best st4
    where fc: "fetch_candidates E serial prop_names_to_try ?fetched None st3 = (fv, best, st4)"
    by (cases "fetch_candidates E serial prop_names_to_try ?fetched None st3") auto
  have "?fetched ''ro.product.model'' = model_fetched"
    by (cases model_fetched) simp_all
  with fetch_candidates_best [of E serial prop_names_to_try ?fetched None st3] fc
  have best: "best = first_match model_fetched (candidate_values E serial prop_names_to_try st3)"
    by simp
  have name: "map_option info_display_name (fst (get_device_info E serial st))
                = Some (finalize_display_name best ?model serial)"
    using assms(1,2,6)
    apply (simp only: get_device_info_def Let_def assms(3,4,5) fc prod.case if_False simp_thms)
    apply (simp split: prod.splits)
    done
  have ne: "v \<noteq> []" if "best = Some v" for v
    using that first_match_not_empty unfolding best by metis
  show ?thesis
    unfolding name best [symmetric]
    using ne
    by (cases best; cases model_fetched) (auto simp: finalize_display_name_def Let_def)
qed


theorem display_name_first_match_witness:
  "adb_available new_manager \<and> ''emulator-5554'' \<noteq> []
   \<and> model_probe (scripted_env galaxy) ''emulator-5554'' new_manager = Some ''SM-G960F''
   \<and> first_match (Some ''SM-G960F'')
        (candidate_values (scripted_env galaxy) ''emulator-5554'' prop_names_to_try
           (after_dedicated_probes (scripted_env galaxy) ''emulator-5554'' new_manager))
       = Some ''Galaxy S9''
   \<and> map_option info_display_name
        (fst (get_device_info (scripted_env galaxy) ''emulator-5554'' new_manager))
       = Some ''Galaxy S9''"
proof -
  let ?E = "scripted_env galaxy" and ?s = "''emulator-5554''"
  let ?st0 = "update_status (''Fetching info for device '' @ ?s @ ''...'') ''info'' new_manager"
  let ?m = "fetch_model ?E ?s ?st0"
  let ?v = "fetch_version ?E ?s (snd ?m)"
  let ?b = "fetch_battery ?E ?s (snd ?v)"
  have a: "adb_available new_manager" by (simp add: new_manager_def)
  have s: "?s \<noteq> []" by simp
  have m: "?m = (fst ?m, snd ?m)" and v: "?v = (fst ?v, snd ?v)" and b: "?b = (fst ?b, snd ?b)"
    by simp_all
  have mv: "fst ?m = Some ''SM-G960F''" by code_simp
  then have ok: "fst ?m \<noteq> None \<or> fst ?v \<noteq> None" by simp
  have fm: "first_match (Some ''SM-G960F'')
              (candidate_values ?E ?s prop_names_to_try (snd ?b)) = Some ''Galaxy S9''"
    by code_simp
  from display_name_first_match [OF a s m v b ok] mv fm a
  show ?thesis
    by (simp add: model_probe_def after_dedicated_probes_def)
qed

text \<open>
  C6 as stated fails when the first qualifying candidate reads \<open>N/A\<close>: it qualifies (it is
  not empty and differs from the model \<open>SM-G960F\<close>), yet the display name is the model.
\<close>

theorem display_name_sentinel_counterexample:
  "model_probe (scripted_env marketname_na) ''emulator-5554'' new_manager = Some ''SM-G960F''
   \<and> first_match (Some ''SM-G960F'')
        (candidate_values (scripted_env marketname_na) ''emulator-5554'' prop_names_to_try
           (after_dedicated_probes (scripted_env marketname_na) ''emulator-5554'' new_manager))
       = Some ''N/A''
   \<and> map_option info_display_name
        (fst (get_device_info (scripted_env marketname_na) ''emulator-5554'' new_manager))
       = Some ''SM-G960F''"
  by code_simp

text \<open>The example of the specification: with only the model probe answering, the model is shown.\<close>

lemma display_name_model_fallback_example:
  "map_option info_display_name
     (fst (get_device_info (scripted_env only_model) ''emulator-5554'' new_manager))
     = Some ''SM-G960F''"
  by code_simp

section \<open>Batch uninstall\<close>
















section \<open>The log stream\<close>

lemma no_stop_logcat_attribute: "''stop_logcat'' \<notin> set adb_manager_attributes"
  by (simp add: adb_manager_attributes_def)

text \<open>
  C3 fails on the code. On a manager that is available and holds the process of a log stream,
  \<open>start_logcat\<close> with a serial raises \<open>AttributeError\<close> at \<open>self.stop_logcat()\<close> and
  leaves the manager as it was: the stop event is not set, the old process is neither
  terminated nor waited for nor killed, and no new stream is started.
\<close>

theorem start_logcat_while_active_raises:
  "adb_available st \<Longrightarrow> serial \<noteq> [] \<Longrightarrow> logcat_process st \<noteq> None \<Longrightarrow>
     start_logcat E serial st = (Some (AttributeError ''stop_logcat''), st)"
  by (simp add: start_logcat_def self_stop_logcat_def no_stop_logcat_attribute)

lemma streaming_manager_state:
  "adb_available streaming_manager"
  "logcat_process streaming_manager = Some 0"
  "process_log streaming_manager = [Popen (logcat_command ''emulator-5554'')]"
  "stop_logcat_event streaming_manager = False"
  by (simp_all add: streaming_manager_def logcat_worker_popen_def start_logcat_def
        new_manager_def update_status_def)

theorem start_logcat_while_active_raises_witness:
  "adb_available streaming_manager \<and> ''emulator-5554'' \<noteq> []
   \<and> logcat_process streaming_manager \<noteq> None
   \<and> fst (start_logcat (scripted_env silent) ''emulator-5554'' streaming_manager)
       = Some (AttributeError ''stop_logcat'')
   \<and> process_log (snd (start_logcat (scripted_env silent) ''emulator-5554'' streaming_manager))
       = [Popen (logcat_command ''emulator-5554'')]
   \<and> logcat_process (snd (start_logcat (scripted_env silent) ''emulator-5554'' streaming_manager))
       = Some 0
   \<and> stop_logcat_event
        (snd (start_logcat (scripted_env silent) ''emulator-5554'' streaming_manager))
       = False"
  using start_logcat_while_active_raises
          [of streaming_manager "''emulator-5554''" "scripted_env silent"]
    streaming_manager_state
  by simp

text \<open>
  What the locally defined function would do on a manager that holds a process \<open>p\<close>, were
  it ever called: set the stop event, terminate \<open>p\<close>, wait one second for it, kill it when
  the wait times out, and forget it.
\<close>

lemma stop_logcat_local_sequence:
  assumes "logcat_process st = Some p"
  shows "stop_logcat_event (stop_logcat_local E st)
     \<and> logcat_process (stop_logcat_local E st) = None
     \<and> process_log (stop_logcat_local E st)
         = process_log st @ [Terminate p, Wait p 1]
           @ (if wait_times_out E p 1 (world st) then [Kill p] else [])"
  using assms by (simp add: stop_logcat_local_def update_status_def)

end
